theory Spec2Isabelle
  imports Main
begin

section \<open>Enumerations, descriptors and plugin objects\<close>

text \<open>
  The enumerations of \<^verbatim>\<open>pytorch_lightning.utilities\<close> with the members that
  \<^verbatim>\<open>accelerator_connector.py\<close> names.
\<close>

datatype DeviceType = CPU | GPU | TPU | IPU

datatype DistributedType =
  DP | DDP | DDP2 | DDP_SPAWN | TPU_SPAWN | DEEPSPEED | HOROVOD
  | DDP_SHARDED | DDP_SHARDED_SPAWN | DDP_FULLY_SHARDED

datatype AMPType = APEX | NATIVE

text \<open>The field \<^verbatim>\<open>self.amp_type\<close>: \<^verbatim>\<open>None\<close>, a lower-cased string, or an enum member.\<close>

datatype amp_value = AmpNone | AmpStr string | AmpEnum AMPType

text \<open>The \<^verbatim>\<open>gpus\<close> and \<^verbatim>\<open>tpu_cores\<close> arguments: \<^verbatim>\<open>None\<close>, an int, a string or a list.\<close>

datatype device_arg = DNone | DInt int | DStr string | DList "int list"

text \<open>\<^verbatim>\<open>self.tpu_cores\<close> after parsing: \<^verbatim>\<open>None\<close>, a core count or a list of core ids.\<close>

datatype tpu_cores_value = TNone | TInt int | TList "int list"

text \<open>\<^verbatim>\<open>torch.device("cuda", i)\<close>, \<^verbatim>\<open>torch.device("cpu")\<close>, or a bare index (TPU, IPU).\<close>

datatype device = CudaDevice int | CpuDevice | IndexDevice int

datatype ClusterEnvironment =
  SLURMEnvironment | TorchElasticEnvironment | KubeflowEnvironment | LightningEnvironment
  | CustomEnvironment string

datatype PrecisionPlugin =
  IPUPrecisionPlugin int
  | DeepSpeedPrecisionPlugin int
  | PrecisionPlugin
  | DoublePrecisionPlugin
  | TPUHalfPrecisionPlugin
  | ShardedNativeMixedPrecisionPlugin
  | FullyShardedNativeMixedPrecisionPlugin
  | NativeMixedPrecisionPlugin
  | ApexMixedPrecisionPlugin string
  | CustomPrecisionPlugin string

datatype strategy_class =
  DDP2Plugin | DeepSpeedPlugin | TPUSpawnPlugin | DDPShardedPlugin | DDPSpawnShardedPlugin
  | DDPPlugin | DDPSpawnPlugin | DDPFullyShardedPlugin | DataParallelPlugin | HorovodPlugin
  | SingleTPUPlugin | IPUPlugin | SingleDevicePlugin | CustomPlugin string

text \<open>
  A training-type plugin object. The connector probes it with \<^verbatim>\<open>hasattr\<close>, so each
  probed attribute is absent (\<open>None\<close>) or present with a value that may itself be
  Python's \<^verbatim>\<open>None\<close> (\<open>Some None\<close>). \<open>tt_other\<close> holds every other attribute.
\<close>

record strategy =
  tt_class :: strategy_class
  tt_parallel_devices :: "device list option option"
  tt_num_processes :: "int option option"
  tt_cluster_environment :: "ClusterEnvironment option option"
  tt_num_nodes :: "int option option"
  tt_sync_batchnorm :: "bool option option"
  tt_other :: "(string \<times> string) list"

datatype accelerator_class =
  GPUAccelerator | TPUAccelerator | IPUAccelerator | CPUAccelerator | CustomAccelerator string

text \<open>
  An accelerator object: \<open>acc_id\<close> is its identity, \<open>acc_training_type_plugin\<close> a
  reference into the store of training-type plugin objects.
\<close>

record accelerator =
  acc_id :: nat
  acc_class :: accelerator_class
  acc_training_type_plugin :: "nat option"
  acc_precision_plugin :: "PrecisionPlugin option"

text \<open>The \<^verbatim>\<open>distributed_backend\<close> value: \<^verbatim>\<open>None\<close>, a name, or an \<^verbatim>\<open>Accelerator\<close> instance.\<close>

datatype backend = BNone | BStr string | BAccelerator accelerator

text \<open>
  One element of \<^verbatim>\<open>plugins\<close>: a string, a \<^verbatim>\<open>TrainingTypePlugin\<close> object (by reference),
  a \<^verbatim>\<open>PrecisionPlugin\<close>, a \<^verbatim>\<open>ClusterEnvironment\<close>, or anything else.
\<close>

datatype plugin_hint =
  HStr string | HTrainingType nat | HPrecision PrecisionPlugin | HCluster ClusterEnvironment
  | HOther string

text \<open>The \<^verbatim>\<open>plugins\<close> argument: \<^verbatim>\<open>None\<close>, one object that is not a sequence, or a sequence.\<close>

datatype plugins_arg = PNone | PSingle plugin_hint | PSeq "plugin_hint list"

section \<open>Errors and messages\<close>

datatype misconfiguration =
  MoreThanOneTrainingTypeRegistered strategy_class string
  | MoreThanOneTrainingType strategy_class
  | MoreThanOnePrecision PrecisionPlugin
  | MoreThanOneClusterEnvironment
  | InvalidPluginType plugin_hint
  | NativeAmpOnCpu
  | NativeAmpUnsupported
  | ApexNotInstalled
  | ShardedWithApex
  | MultiNodeUnsupported
  | NotInteractiveCompatible DistributedType "DistributedType list"
  | HorovodNotInstalled
  | HorovodExplicitCounts

datatype error =
  MisconfigurationException misconfiguration
  | NotImplementedError
  | TypeError
  | ValueError
  | IndexError
  | UnboundLocalError
  | RuntimeError
  | ExternalError string

datatype message =
  Warn_MultipleGpusNoBackend
  | Warn_DdpCpuGpusUnused
  | Warn_NoGpuSetDdpCpu
  | Warn_SingleNodeNoEffect
  | Warn_GpuAvailableNotUsed
  | Warn_PluginsIgnored
  | Warn_NativeAmpFallbackApex
  | Info_GpuAvailable bool bool
  | Info_TpuAvailable bool tpu_cores_value
  | Info_IpuAvailable bool int
  | Info_SlurmManaging
  | Info_Native16
  | Info_Apex16

section \<open>Collaborators outside the file\<close>

record registry_entry =
  reg_plugin :: strategy_class
  reg_distributed_backend :: string
  reg_instance :: strategy

text \<open>The arguments of the plugin constructors that \<^verbatim>\<open>select_training_type_plugin\<close> calls.\<close>

datatype ctor_call =
  NewParallel strategy_class "device list" "ClusterEnvironment option"
  | NewDataParallel "device list"
  | NewHorovod "device list"
  | NewSingleTPU "int option"
  | NewIPU "device list"
  | NewSingleDevice device

text \<open>
  What the connector imports and only calls or reads: availability constants, the
  launcher probes, the plugin registry, the parsers of \<^verbatim>\<open>device_parser\<close>, the enum
  conversions, the class hierarchy of the plugins and their constructors. They are
  parameters of every function below. \<open>int_of_str\<close> is Python's \<^verbatim>\<open>int\<close> on a string
  (\<open>None\<close> where it raises \<^verbatim>\<open>ValueError\<close>); \<open>DistributedType_of\<close> is the enum call
  \<^verbatim>\<open>DistributedType(name)\<close>.
\<close>

record ambient =
  cuda_is_available :: bool
  cpu_count :: "int option"
  HOROVOD_AVAILABLE :: bool
  APEX_AVAILABLE :: bool
  NATIVE_AMP_AVAILABLE :: bool
  TPU_AVAILABLE :: bool
  IPU_AVAILABLE :: bool
  IS_INTERACTIVE :: bool
  hvd_local_size :: int
  TrainingTypePluginsRegistry :: "string \<Rightarrow> registry_entry option"
  DistributedType_of :: "string \<Rightarrow> DistributedType option"
  is_interactive_compatible :: "DistributedType \<Rightarrow> bool"
  interactive_compatible_types :: "DistributedType list"
  is_using_torchelastic :: bool
  is_using_kubeflow :: bool
  parse_tpu_cores :: "device_arg \<Rightarrow> error + tpu_cores_value"
  pick_multiple_gpus :: "int \<Rightarrow> error + int list"
  parse_gpu_ids :: "device_arg \<Rightarrow> error + int list option"
  determine_root_gpu_device :: "int list option \<Rightarrow> error + int option"
  AMPType_from_str :: "amp_value \<Rightarrow> error + AMPType option"
  int_of_str :: "string \<Rightarrow> int option"
  is_subclass :: "strategy_class \<Rightarrow> strategy_class \<Rightarrow> bool"
  construct :: "ctor_call \<Rightarrow> strategy"

section \<open>The connector and the state around it\<close>

text \<open>
  The fields of \<^verbatim>\<open>AcceleratorConnector\<close> (a leading underscore is written \<open>u_\<close>),
  followed by the process-wide state the file touches: the store of training-type
  plugin objects with its allocation counter, the emitted messages, \<^verbatim>\<open>os.environ\<close>,
  the two cudnn flags and whether \<^verbatim>\<open>hvd.init()\<close> ran.
\<close>

record connector =
  u_device_type :: DeviceType
  u_distrib_type :: "DistributedType option"
  num_processes :: "int option"
  tpu_cores :: tpu_cores_value
  ipus :: "int option"
  distributed_backend :: backend
  auto_select_gpus :: bool
  gpus :: device_arg
  num_nodes :: "int option"
  sync_batchnorm :: bool
  benchmark :: bool
  replace_sampler_ddp :: bool
  deterministic :: bool
  precision :: int
  amp_type :: amp_value
  amp_level :: string
  is_slurm_managing_tasks :: bool
  u_precision_plugin :: "PrecisionPlugin option"
  u_training_type_plugin :: "nat option"
  u_cluster_environment :: "ClusterEnvironment option"
  plugins :: "plugin_hint list"
  parallel_device_ids :: "int list option"
  u_training_type_plugin_resolved :: bool
  accelerator_f :: "accelerator option"
  world_size :: int
  interactive_ddp_procs :: "int list"
  global_rank :: int
  store :: "nat \<Rightarrow> strategy"
  next_ref :: nat
  messages :: "message list"
  environ :: "string \<Rightarrow> string option"
  cudnn_benchmark :: bool
  cudnn_deterministic :: bool
  hvd_initialized :: bool

section \<open>Python helpers\<close>

fun has_prefix :: "string \<Rightarrow> string \<Rightarrow> bool" where
  "has_prefix [] ys = True"
| "has_prefix (x # xs) [] = False"
| "has_prefix (x # xs) (y # ys) = (x = y \<and> has_prefix xs ys)"

text \<open>\<^verbatim>\<open>sub in s\<close> on strings.\<close>

fun str_in :: "string \<Rightarrow> string \<Rightarrow> bool" where
  "str_in sub [] = (sub = [])"
| "str_in sub (y # ys) = (has_prefix sub (y # ys) \<or> str_in sub ys)"

text \<open>\<^verbatim>\<open>list(range(n))\<close>.\<close>

definition py_range :: "int \<Rightarrow> int list" where
  "py_range n = map int [0 ..< nat n]"

text \<open>\<^verbatim>\<open>x > 1\<close>, which raises \<^verbatim>\<open>TypeError\<close> when \<^verbatim>\<open>x\<close> is \<^verbatim>\<open>None\<close>.\<close>

definition py_gt1 :: "int option \<Rightarrow> error + bool" where
  "py_gt1 x = (case x of None \<Rightarrow> Inl TypeError | Some n \<Rightarrow> Inr (n > 1))"

text \<open>\<^verbatim>\<open>x > 1 or y > 1\<close>: the second comparison runs only when the first is false.\<close>

definition py_gt1_or :: "int option \<Rightarrow> int option \<Rightarrow> error + bool" where
  "py_gt1_or x y =
     (case py_gt1 x of
        Inl e \<Rightarrow> Inl e
      | Inr True \<Rightarrow> Inr True
      | Inr False \<Rightarrow> py_gt1 y)"

text \<open>\<^verbatim>\<open>x and x > 1\<close> as a condition: \<^verbatim>\<open>None\<close> and \<^verbatim>\<open>0\<close> are falsy.\<close>

definition py_truthy_gt1 :: "int option \<Rightarrow> bool" where
  "py_truthy_gt1 x = (case x of None \<Rightarrow> False | Some n \<Rightarrow> n \<noteq> 0 \<and> n > 1)"

section \<open>Properties of the connector\<close>

definition num_gpus :: "connector \<Rightarrow> int" where
  "num_gpus s = (case parallel_device_ids s of None \<Rightarrow> 0 | Some g \<Rightarrow> int (length g))"

definition on_cpu :: "connector \<Rightarrow> bool" where
  "on_cpu s = (u_device_type s = CPU)"

definition on_tpu :: "connector \<Rightarrow> bool" where
  "on_tpu s = (tpu_cores s \<noteq> TNone)"

definition on_ipu :: "connector \<Rightarrow> bool" where
  "on_ipu s = (ipus s \<noteq> None)"

definition on_gpu :: "ambient \<Rightarrow> connector \<Rightarrow> bool" where
  "on_gpu a s =
     (case parallel_device_ids s of
        None \<Rightarrow> False
      | Some g \<Rightarrow> length g > 0 \<and> cuda_is_available a)"

definition use_dp :: "connector \<Rightarrow> bool" where
  "use_dp s = (u_distrib_type s = Some DP)"

definition use_ddp :: "connector \<Rightarrow> bool" where
  "use_ddp s =
     (case u_distrib_type s of
        None \<Rightarrow> False
      | Some t \<Rightarrow> t \<in> set [DDP, DDP_SPAWN, DDP_SHARDED, DDP_SHARDED_SPAWN,
                            DDP_FULLY_SHARDED, DEEPSPEED, TPU_SPAWN])"

definition use_ddp2 :: "connector \<Rightarrow> bool" where
  "use_ddp2 s = (u_distrib_type s = Some DDP2)"

definition use_horovod :: "connector \<Rightarrow> bool" where
  "use_horovod s = (u_distrib_type s = Some HOROVOD)"

definition use_deepspeed :: "connector \<Rightarrow> bool" where
  "use_deepspeed s = (u_distrib_type s = Some DEEPSPEED)"

definition is_registered :: "ambient \<Rightarrow> string \<Rightarrow> bool" where
  "is_registered a name = (TrainingTypePluginsRegistry a name \<noteq> None)"

definition is_training_type_in_plugins :: "ambient \<Rightarrow> connector \<Rightarrow> bool" where
  "is_training_type_in_plugins a s =
     list_ex (\<lambda>plug. case plug of HStr name \<Rightarrow> is_registered a name | _ \<Rightarrow> False) (plugins s)"

definition has_horovodrun :: "connector \<Rightarrow> bool" where
  "has_horovodrun s =
     (environ s ''OMPI_COMM_WORLD_RANK'' \<noteq> None \<or> environ s ''HOROVOD_RANK'' \<noteq> None)"

section \<open>Horovod and the interactive guard\<close>

definition check_horovod :: "ambient \<Rightarrow> connector \<Rightarrow> error + unit" where
  "check_horovod a s =
     (if \<not> HOROVOD_AVAILABLE a then Inl (MisconfigurationException HorovodNotInstalled)
      else if num_gpus s > 1 then Inl (MisconfigurationException HorovodExplicitCounts)
      else case py_gt1 (num_nodes s) of
             Inl e \<Rightarrow> Inl e
           | Inr True \<Rightarrow> Inl (MisconfigurationException HorovodExplicitCounts)
           | Inr False \<Rightarrow> Inr ())"

definition set_horovod_backend :: "ambient \<Rightarrow> connector \<Rightarrow> error + connector" where
  "set_horovod_backend a s =
     (case check_horovod a s of
        Inl e \<Rightarrow> Inl e
      | Inr _ \<Rightarrow>
          let s1 = s\<lparr>u_distrib_type := Some HOROVOD, hvd_initialized := True\<rparr>
          in if on_gpu a s1
             then Inr (s1\<lparr>parallel_device_ids := Some (py_range (hvd_local_size a))\<rparr>)
             else Inr (s1\<lparr>num_processes := Some (hvd_local_size a)\<rparr>))"

definition check_interactive_compatibility :: "ambient \<Rightarrow> connector \<Rightarrow> error + unit" where
  "check_interactive_compatibility a s =
     (case u_distrib_type s of
        None \<Rightarrow> Inr ()
      | Some t \<Rightarrow>
          if IS_INTERACTIVE a \<and> \<not> is_interactive_compatible a t
          then Inl (MisconfigurationException
                      (NotInteractiveCompatible t (interactive_compatible_types a)))
          else Inr ())"

section \<open>\<^verbatim>\<open>set_distributed_mode\<close>\<close>

text \<open>
  The function is a sequence of blocks; each block is one definition, in the order of
  the source, and \<open>set_distributed_mode\<close> chains them.
\<close>

text \<open>Lines 557-560: the argument, when given, replaces \<^verbatim>\<open>self.distributed_backend\<close>.\<close>

definition sdm_assign_backend :: "ambient \<Rightarrow> string option \<Rightarrow> connector \<Rightarrow> connector" where
  "sdm_assign_backend a arg s =
     (case arg of
        None \<Rightarrow> s
      | Some name \<Rightarrow>
          (case TrainingTypePluginsRegistry a name of
             Some entry \<Rightarrow> s\<lparr>distributed_backend := BStr (reg_distributed_backend entry)\<rparr>
           | None \<Rightarrow> s\<lparr>distributed_backend := BStr name\<rparr>))"

text \<open>Lines 565-575: no backend was given.\<close>

definition sdm_no_backend :: "ambient \<Rightarrow> connector \<Rightarrow> error + connector" where
  "sdm_no_backend a s =
     (if distributed_backend s = BNone then
        if has_horovodrun s then set_horovod_backend a s
        else case (if num_gpus s = 0 then py_gt1_or (num_nodes s) (num_processes s)
                   else Inr False) of
               Inl e \<Rightarrow> Inl e
             | Inr True \<Rightarrow> Inr (s\<lparr>u_distrib_type := Some DDP\<rparr>)
             | Inr False \<Rightarrow>
                 if num_gpus s > 1
                 then Inr (s\<lparr>messages := messages s @ [Warn_MultipleGpusNoBackend],
                            distributed_backend := BStr ''ddp_spawn''\<rparr>)
                 else Inr s
      else Inr s)"

text \<open>Lines 577-596: the special cases \<^verbatim>\<open>ddp_cpu\<close>, TPU, IPU, and the plain enum conversion.\<close>

definition sdm_ddp_cpu :: "ambient \<Rightarrow> connector \<Rightarrow> connector" where
  "sdm_ddp_cpu a s =
     (let s1 = s\<lparr>u_distrib_type := Some DDP_SPAWN\<rparr>;
          s2 = (if num_gpus s1 > 0
                then s1\<lparr>messages := messages s1 @ [Warn_DdpCpuGpusUnused],
                        parallel_device_ids := None\<rparr>
                else s1)
      in if num_processes s2 = None then s2\<lparr>num_processes := cpu_count a\<rparr> else s2)"

definition sdm_special_cases :: "ambient \<Rightarrow> connector \<Rightarrow> error + connector" where
  "sdm_special_cases a s =
     (if distributed_backend s = BStr ''ddp_cpu'' then Inr (sdm_ddp_cpu a s)
      else if distributed_backend s = BStr ''tpu'' \<or> tpu_cores s \<noteq> TNone then
        (let s1 = s\<lparr>u_device_type := TPU\<rparr>
         in case tpu_cores s1 of
              TInt n \<Rightarrow> Inr (s1\<lparr>u_distrib_type := Some TPU_SPAWN\<rparr>)
            | _ \<Rightarrow> Inr s1)
      else if distributed_backend s = BStr ''ipu'' then Inr (s\<lparr>u_device_type := IPU\<rparr>)
      else case distributed_backend s of
             BStr name \<Rightarrow>
               if name \<noteq> [] \<and> u_distrib_type s = None
               then (case DistributedType_of a name of
                       None \<Rightarrow> Inl ValueError
                     | Some t \<Rightarrow> Inr (s\<lparr>u_distrib_type := Some t\<rparr>))
               else Inr s
           | _ \<Rightarrow> Inr s)"

text \<open>
  The local \<^verbatim>\<open>_on_cpu\<close> of line 599, as the condition it is used for: the backend is a
  non-empty name that contains \<^verbatim>\<open>cpu\<close>. (An \<^verbatim>\<open>Accelerator\<close> backend returned at line 563.)
\<close>

definition sdm_on_cpu :: "connector \<Rightarrow> bool" where
  "sdm_on_cpu s =
     (case distributed_backend s of
        BStr name \<Rightarrow> name \<noteq> [] \<and> str_in ''cpu'' name
      | _ \<Rightarrow> False)"

text \<open>Lines 598-601.\<close>

definition sdm_promote_gpu :: "connector \<Rightarrow> connector" where
  "sdm_promote_gpu s =
     (if num_gpus s > 0 \<and> \<not> sdm_on_cpu s then s\<lparr>u_device_type := GPU\<rparr> else s)"

text \<open>Lines 603-614: DP, DDP, DDP_SPAWN and DDP2 without any GPU.\<close>

definition gpu_distrib_types :: "DistributedType list" where
  "gpu_distrib_types = [DP, DDP, DDP_SPAWN, DDP2]"

definition sdm_gpu_guard :: "connector \<Rightarrow> connector" where
  "sdm_gpu_guard s =
     (if num_gpus s = 0
         \<and> (case u_distrib_type s of None \<Rightarrow> False | Some t \<Rightarrow> t \<in> set gpu_distrib_types)
         \<and> \<not> sdm_on_cpu s
      then
        (let s1 = s\<lparr>messages := messages s @ [Warn_NoGpuSetDdpCpu]\<rparr>
         in if py_truthy_gt1 (num_nodes s1) \<or> py_truthy_gt1 (num_processes s1)
            then s1\<lparr>u_distrib_type := Some DDP\<rparr>
            else s1\<lparr>messages := messages s1 @ [Warn_SingleNodeNoEffect],
                    u_distrib_type := None\<rparr>)
      else s)"

text \<open>Lines 619-627: the process count on GPU.\<close>

definition sdm_num_processes :: "connector \<Rightarrow> connector" where
  "sdm_num_processes s =
     (let s1 = (if u_device_type s = GPU
                   \<and> (u_distrib_type s = Some DDP \<or> u_distrib_type s = Some DDP_SPAWN)
                then s\<lparr>num_processes := Some (num_gpus s)\<rparr>
                else s)
      in if u_device_type s1 = GPU \<and> u_distrib_type s1 = Some DDP2
         then s1\<lparr>num_processes := num_nodes s1\<rparr>
         else s1)"

text \<open>Lines 629-631.\<close>

definition sdm_horovod :: "ambient \<Rightarrow> connector \<Rightarrow> error + connector" where
  "sdm_horovod a s =
     (if distributed_backend s = BStr ''horovod'' then set_horovod_backend a s else Inr s)"

text \<open>Lines 633-639: only \<^verbatim>\<open>use_ddp\<close> and \<^verbatim>\<open>use_ddp2\<close> support several nodes.\<close>

definition sdm_validate_nodes :: "connector \<Rightarrow> error + connector" where
  "sdm_validate_nodes s =
     (let using_valid_distributed = (use_ddp s \<or> use_ddp2 s)
      in case py_gt1 (num_nodes s) of
           Inl e \<Rightarrow> Inl e
         | Inr True \<Rightarrow>
             if \<not> using_valid_distributed
             then Inl (MisconfigurationException MultiNodeUnsupported)
             else Inr s
         | Inr False \<Rightarrow> Inr s)"

text \<open>Lines 641-652: the availability summaries.\<close>

definition sdm_report :: "ambient \<Rightarrow> connector \<Rightarrow> connector" where
  "sdm_report a s =
     (let num_tpu_cores = (case tpu_cores s of TNone \<Rightarrow> TInt 0 | t \<Rightarrow> t);
          num_ipus = (case ipus s of None \<Rightarrow> 0 | Some n \<Rightarrow> n);
          s1 = s\<lparr>messages := messages s
                  @ [Info_GpuAvailable (cuda_is_available a) (u_device_type s = GPU),
                     Info_TpuAvailable (TPU_AVAILABLE a) num_tpu_cores,
                     Info_IpuAvailable (IPU_AVAILABLE a) num_ipus]\<rparr>
      in if cuda_is_available a \<and> u_device_type s1 \<noteq> GPU
         then s1\<lparr>messages := messages s1 @ [Warn_GpuAvailableNotUsed]\<rparr>
         else s1)"

text \<open>Lines 565-631: everything between the early returns and the validation.\<close>

definition sdm_configure :: "ambient \<Rightarrow> connector \<Rightarrow> error + connector" where
  "sdm_configure a s =
     (case sdm_no_backend a s of
        Inl e \<Rightarrow> Inl e
      | Inr s1 \<Rightarrow>
     (case sdm_special_cases a s1 of
        Inl e \<Rightarrow> Inl e
      | Inr s2 \<Rightarrow>
     (let s3 = sdm_gpu_guard (sdm_promote_gpu s2)
      in case check_interactive_compatibility a s3 of
        Inl e \<Rightarrow> Inl e
      | Inr _ \<Rightarrow> sdm_horovod a (sdm_num_processes s3))))"

text \<open>Lines 565-652, after the two early returns.\<close>

definition sdm_resolve :: "ambient \<Rightarrow> connector \<Rightarrow> error + connector" where
  "sdm_resolve a s =
     (case sdm_configure a s of
        Inl e \<Rightarrow> Inl e
      | Inr s4 \<Rightarrow>
     (case sdm_validate_nodes s4 of
        Inl e \<Rightarrow> Inl e
      | Inr s5 \<Rightarrow> Inr (sdm_report a s5)))"

text \<open>\<^verbatim>\<open>isinstance(x, Accelerator)\<close> on a backend value.\<close>

definition is_Accelerator :: "backend \<Rightarrow> bool" where
  "is_Accelerator b = (case b of BAccelerator acc \<Rightarrow> True | _ \<Rightarrow> False)"

definition set_distributed_mode :: "ambient \<Rightarrow> string option \<Rightarrow> connector \<Rightarrow> error + connector" where
  "set_distributed_mode a arg s =
     (if arg = None \<and> is_training_type_in_plugins a s then Inr s
      else
        (let s1 = sdm_assign_backend a arg s
         in if is_Accelerator (distributed_backend s1) then Inr s1
            else sdm_resolve a s1))"

section \<open>\<^verbatim>\<open>configure_slurm_ddp\<close> and the cluster environment\<close>

text \<open>
  The \<^verbatim>\<open>try\<close> block of lines 705-720, as the value it leaves in
  \<^verbatim>\<open>is_slurm_managing_tasks\<close>: every exception inside it (a missing variable, a task
  count that \<^verbatim>\<open>int\<close> rejects) is caught and gives \<open>False\<close>.
\<close>

definition slurm_try :: "ambient \<Rightarrow> connector \<Rightarrow> int \<Rightarrow> bool" where
  "slurm_try a s num_requested_gpus =
     (case environ s ''SLURM_NTASKS'' of
        None \<Rightarrow> False
      | Some v \<Rightarrow>
          (case int_of_str a v of
             None \<Rightarrow> False
           | Some num_slurm_tasks \<Rightarrow>
               (let m1 = (num_slurm_tasks = num_requested_gpus);
                    m2 = (if num_requested_gpus = 0
                          then (Some num_slurm_tasks = num_processes s)
                          else m1)
                in case environ s ''SLURM_JOB_NAME'' of
                     None \<Rightarrow> False
                   | Some job_name \<Rightarrow> if job_name = ''bash'' then False else m2)))"

text \<open>Lines 722-728: the test-only override; its exceptions are passed over.\<close>

definition slurm_fake :: "ambient \<Rightarrow> connector \<Rightarrow> connector" where
  "slurm_fake a s =
     (case environ s ''FAKE_SLURM_MANAGING_TASKS'' of
        None \<Rightarrow> s
      | Some v \<Rightarrow>
          (case int_of_str a v of
             None \<Rightarrow> s
           | Some should_fake \<Rightarrow>
               if should_fake \<noteq> 0 then s\<lparr>is_slurm_managing_tasks := True\<rparr> else s))"

definition configure_slurm_ddp :: "ambient \<Rightarrow> connector \<Rightarrow> error + connector" where
  "configure_slurm_ddp a s =
     (case (if use_ddp s \<or> use_ddp2 s
            then (case num_nodes s of
                    None \<Rightarrow> Inl TypeError
                  | Some n \<Rightarrow>
                      Inr (s\<lparr>is_slurm_managing_tasks := slurm_try a s (num_gpus s * n)\<rparr>))
            else Inr s) of
        Inl e \<Rightarrow> Inl e
      | Inr s1 \<Rightarrow>
          (let s2 = slurm_fake a s1
           in if is_slurm_managing_tasks s2
              then Inr (s2\<lparr>messages := messages s2 @ [Info_SlurmManaging]\<rparr>)
              else Inr s2))"

definition select_cluster_environment :: "ambient \<Rightarrow> connector \<Rightarrow> ClusterEnvironment" where
  "select_cluster_environment a s =
     (case u_cluster_environment s of
        Some env \<Rightarrow> env
      | None \<Rightarrow>
          if is_slurm_managing_tasks s then SLURMEnvironment
          else if is_using_torchelastic a then TorchElasticEnvironment
          else if is_using_kubeflow a then KubeflowEnvironment
          else LightningEnvironment)"

section \<open>\<^verbatim>\<open>handle_given_plugins\<close>\<close>

text \<open>Allocation of a new training-type plugin object in the store.\<close>

definition new_object :: "strategy \<Rightarrow> connector \<Rightarrow> nat \<times> connector" where
  "new_object obj s =
     (next_ref s, s\<lparr>store := (store s)(next_ref s := obj), next_ref := Suc (next_ref s)\<rparr>)"

text \<open>
  One iteration of the loop of lines 179-223 on the locals \<^verbatim>\<open>training_type\<close>,
  \<^verbatim>\<open>precision\<close> and \<^verbatim>\<open>cluster_environment\<close>. The payload of each conflict error is what
  its message interpolates: the registered class and the name (line 187), or the type of
  the current plugin (lines 202 and 210); the cluster-environment message has none.
\<close>

type_synonym hgp_locals = "nat option \<times> PrecisionPlugin option \<times> ClusterEnvironment option"

definition hgp_registered :: "ambient \<Rightarrow> string \<Rightarrow> nat option \<Rightarrow> connector \<Rightarrow> error + (nat option \<times> connector)" where
  "hgp_registered a name training_type s =
     (case TrainingTypePluginsRegistry a name of
        None \<Rightarrow> Inr (training_type, s)
      | Some entry \<Rightarrow>
          if training_type = None
          then (case new_object (reg_instance entry) s of (r, s1) \<Rightarrow> Inr (Some r, s1))
          else Inl (MisconfigurationException
                      (MoreThanOneTrainingTypeRegistered (reg_plugin entry) name)))"

definition hgp_step :: "ambient \<Rightarrow> plugin_hint \<Rightarrow> hgp_locals \<Rightarrow> connector \<Rightarrow> error + (hgp_locals \<times> connector)" where
  "hgp_step a plug locals s =
     (case locals of (training_type, precision_l, cluster_environment_l) \<Rightarrow>
        (case plug of
           HStr name \<Rightarrow>
             (case hgp_registered a name training_type s of
                Inl e \<Rightarrow> Inl e
              | Inr (training_type1, s1) \<Rightarrow>
                  (case set_distributed_mode a (Some name) (s1\<lparr>u_distrib_type := None\<rparr>) of
                     Inl e \<Rightarrow> Inl e
                   | Inr s2 \<Rightarrow> Inr ((training_type1, precision_l, cluster_environment_l), s2)))
         | HTrainingType r \<Rightarrow>
             if training_type = None
             then Inr ((Some r, precision_l, cluster_environment_l), s)
             else Inl (MisconfigurationException (MoreThanOneTrainingType (tt_class (store s r))))
         | HPrecision p \<Rightarrow>
             if precision_l = None
             then Inr ((training_type, Some p, cluster_environment_l), s)
             else Inl (MisconfigurationException (MoreThanOnePrecision p))
         | HCluster c \<Rightarrow>
             if cluster_environment_l = None
             then Inr ((training_type, precision_l, Some c), s)
             else Inl (MisconfigurationException MoreThanOneClusterEnvironment)
         | HOther x \<Rightarrow> Inl (MisconfigurationException (InvalidPluginType plug))))"

fun hgp_loop :: "ambient \<Rightarrow> plugin_hint list \<Rightarrow> hgp_locals \<Rightarrow> connector \<Rightarrow> error + (hgp_locals \<times> connector)" where
  "hgp_loop a [] locals s = Inr (locals, s)"
| "hgp_loop a (plug # rest) locals s =
     (case hgp_step a plug locals s of
        Inl e \<Rightarrow> Inl e
      | Inr (locals1, s1) \<Rightarrow> hgp_loop a rest locals1 s1)"

definition handle_given_plugins :: "ambient \<Rightarrow> connector \<Rightarrow> error + connector" where
  "handle_given_plugins a s =
     (case hgp_loop a (plugins s) (None, None, None) s of
        Inl e \<Rightarrow> Inl e
      | Inr ((training_type, precision_l, cluster_environment_l), s1) \<Rightarrow>
          (let s2 = s1\<lparr>u_training_type_plugin := training_type\<rparr>;
               s3 = s2\<lparr>u_precision_plugin := precision_l\<rparr>
           in Inr (s3\<lparr>u_cluster_environment :=
                         (case cluster_environment_l of
                            Some c \<Rightarrow> Some c
                          | None \<Rightarrow> Some (select_cluster_environment a s3))\<rparr>)))"

section \<open>Selection and back-fill of the training-type plugin\<close>

definition parallel_devices :: "ambient \<Rightarrow> connector \<Rightarrow> error + device list" where
  "parallel_devices a s =
     (if on_gpu a s then
        (case parallel_device_ids s of
           Some g \<Rightarrow> Inr (map CudaDevice g)
         | None \<Rightarrow> Inl TypeError)
      else if on_tpu s then
        (case tpu_cores s of
           TInt n \<Rightarrow> Inr (map IndexDevice (py_range n))
         | _ \<Rightarrow> Inl UnboundLocalError)
      else if on_ipu s then
        (case ipus s of
           Some n \<Rightarrow> Inr (map IndexDevice (py_range n))
         | None \<Rightarrow> Inl UnboundLocalError)
      else
        (case num_processes s of
           None \<Rightarrow> Inl TypeError
         | Some n \<Rightarrow> Inr (replicate (nat n) CpuDevice)))"

definition tpu_id :: "connector \<Rightarrow> error + int option" where
  "tpu_id s =
     (case tpu_cores s of
        TList [] \<Rightarrow> Inl IndexError
      | TList (c # cs) \<Rightarrow> Inr (Some c)
      | _ \<Rightarrow> Inr None)"

text \<open>Lines 440-474: which class the DDP family takes.\<close>

definition ddp_plugin_cls :: "ambient \<Rightarrow> connector \<Rightarrow> strategy_class" where
  "ddp_plugin_cls a s =
     (let use_slurm_ddp = (use_ddp s \<and> is_slurm_managing_tasks s);
          use_torchelastic_ddp0 = (use_ddp s \<and> is_using_torchelastic a);
          use_kubeflow_ddp = (use_ddp s \<and> is_using_kubeflow a);
          use_ddp_spawn = (u_distrib_type s = Some DDP_SPAWN);
          use_ddp_cpu_spawn = (use_ddp s \<and> on_cpu s);
          use_tpu_spawn = (on_tpu s \<and> u_distrib_type s = Some TPU_SPAWN);
          use_ddp_cpu_torch_elastic = (use_ddp_cpu_spawn \<and> is_using_torchelastic a);
          use_ddp_cpu_kubeflow = (use_ddp_cpu_spawn \<and> is_using_kubeflow a);
          use_ddp_cpu_slurm = (use_ddp_cpu_spawn \<and> is_slurm_managing_tasks s);
          use_ddp_sharded = (u_distrib_type s = Some DDP_SHARDED);
          use_ddp_sharded_spawn = (u_distrib_type s = Some DDP_SHARDED_SPAWN);
          use_ddp_fully_sharded = (u_distrib_type s = Some DDP_FULLY_SHARDED);
          use_torchelastic_ddp =
            (case environ s ''PL_IN_DDP_SUBPROCESS'' of
               None \<Rightarrow> use_torchelastic_ddp0
             | Some v \<Rightarrow> if v \<noteq> [] then False else use_torchelastic_ddp0)
      in if use_tpu_spawn then TPUSpawnPlugin
         else if use_ddp_sharded then DDPShardedPlugin
         else if use_ddp_sharded_spawn then DDPSpawnShardedPlugin
         else if use_ddp_cpu_slurm \<or> use_slurm_ddp \<or> use_ddp_cpu_torch_elastic
                 \<or> use_torchelastic_ddp \<or> use_kubeflow_ddp \<or> use_ddp_cpu_kubeflow
         then DDPPlugin
         else if use_ddp_spawn \<or> use_ddp_cpu_spawn then DDPSpawnPlugin
         else if use_ddp_fully_sharded then DDPFullyShardedPlugin
         else DDPPlugin)"

text \<open>A constructor call with the device list: the list is evaluated first and may raise.\<close>

definition new_with_devices :: "ambient \<Rightarrow> (device list \<Rightarrow> ctor_call) \<Rightarrow> connector \<Rightarrow> error + (nat \<times> connector)" where
  "new_with_devices a call s =
     (case parallel_devices a s of
        Inl e \<Rightarrow> Inl e
      | Inr devs \<Rightarrow> Inr (new_object (construct a (call devs)) s))"

definition accelerator_plugin :: "connector \<Rightarrow> nat option" where
  "accelerator_plugin s =
     (case distributed_backend s of
        BAccelerator acc \<Rightarrow> acc_training_type_plugin acc
      | _ \<Rightarrow> None)"

definition select_training_type_plugin :: "ambient \<Rightarrow> connector \<Rightarrow> error + (nat \<times> connector)" where
  "select_training_type_plugin a s =
     (case accelerator_plugin s of
        Some r \<Rightarrow> Inr (r, s)
      | None \<Rightarrow>
          if use_ddp2 s then
            new_with_devices a (\<lambda>devs. NewParallel DDP2Plugin devs (u_cluster_environment s)) s
          else if use_ddp s \<and> use_deepspeed s then
            new_with_devices a
              (\<lambda>devs. NewParallel DeepSpeedPlugin devs (Some (select_cluster_environment a s))) s
          else if use_ddp s then
            new_with_devices a
              (\<lambda>devs. NewParallel (ddp_plugin_cls a s) devs (u_cluster_environment s)) s
          else if use_dp s then new_with_devices a NewDataParallel s
          else if use_horovod s then new_with_devices a NewHorovod s
          else if on_tpu s \<and> (case tpu_cores s of TList l \<Rightarrow> True | _ \<Rightarrow> False) then
            (case tpu_id s of
               Inl e \<Rightarrow> Inl e
             | Inr i \<Rightarrow> Inr (new_object (construct a (NewSingleTPU i)) s))
          else if on_ipu s then new_with_devices a NewIPU s
          else
            (case determine_root_gpu_device a (parallel_device_ids s) of
               Inl e \<Rightarrow> Inl e
             | Inr single_gpu_ordinal \<Rightarrow>
                 if on_gpu a s then
                   (case single_gpu_ordinal of
                      None \<Rightarrow> Inl RuntimeError
                    | Some i \<Rightarrow> Inr (new_object (construct a (NewSingleDevice (CudaDevice i))) s))
                 else Inr (new_object (construct a (NewSingleDevice CpuDevice)) s)))"

text \<open>
  Lines 495-509 on the plugin object itself: what \<^verbatim>\<open>resolve_training_type_plugin\<close>
  assigns to the attributes of \<^verbatim>\<open>training_type\<close>.
\<close>

definition backfill :: "ambient \<Rightarrow> connector \<Rightarrow> strategy \<Rightarrow> error + strategy" where
  "backfill a s p =
     (case (if tt_parallel_devices p = Some None then
              (case parallel_devices a s of
                 Inl e \<Rightarrow> Inl e
               | Inr devs \<Rightarrow>
                   (let p1 = p\<lparr>tt_parallel_devices := Some (Some devs)\<rparr>
                    in if tt_num_processes p1 \<noteq> None
                       then Inr (p1\<lparr>tt_num_processes := Some (Some (int (length devs)))\<rparr>)
                       else Inr p1))
            else Inr p) of
        Inl e \<Rightarrow> Inl e
      | Inr p1 \<Rightarrow>
          (let p2 = (if tt_cluster_environment p1 = Some None
                     then p1\<lparr>tt_cluster_environment :=
                               Some (Some (select_cluster_environment a s))\<rparr>
                     else p1);
               p3 = (if tt_num_nodes p2 \<noteq> None
                     then p2\<lparr>tt_num_nodes := Some (num_nodes s)\<rparr>
                     else p2);
               p4 = (if tt_sync_batchnorm p3 \<noteq> None
                     then p3\<lparr>tt_sync_batchnorm := Some (Some (sync_batchnorm s))\<rparr>
                     else p3)
           in Inr p4))"

text \<open>The object is mutated in place and the same reference is returned.\<close>

definition resolve_training_type_plugin :: "ambient \<Rightarrow> nat \<Rightarrow> connector \<Rightarrow> error + (nat \<times> connector)" where
  "resolve_training_type_plugin a training_type s =
     (case backfill a s (store s training_type) of
        Inl e \<Rightarrow> Inl e
      | Inr p \<Rightarrow> Inr (training_type, s\<lparr>store := (store s)(training_type := p)\<rparr>))"

text \<open>The property \<^verbatim>\<open>training_type_plugin\<close>: its value and the connector after the read.\<close>

definition training_type_plugin :: "ambient \<Rightarrow> connector \<Rightarrow> error + (nat option \<times> connector)" where
  "training_type_plugin a s =
     (if u_training_type_plugin_resolved s then Inr (u_training_type_plugin s, s)
      else
        (case (case u_training_type_plugin s of
                 None \<Rightarrow>
                   (case select_training_type_plugin a s of
                      Inl e \<Rightarrow> Inl e
                    | Inr (r, s1) \<Rightarrow> Inr (r, s1\<lparr>u_training_type_plugin := Some r\<rparr>))
               | Some r \<Rightarrow> Inr (r, s)) of
           Inl e \<Rightarrow> Inl e
         | Inr (r, s1) \<Rightarrow>
             (case resolve_training_type_plugin a r s1 of
                Inl e \<Rightarrow> Inl e
              | Inr (r1, s2) \<Rightarrow>
                  Inr (Some r1, s2\<lparr>u_training_type_plugin := Some r1,
                                    u_training_type_plugin_resolved := True\<rparr>))))"

definition cluster_environment :: "connector \<Rightarrow> ClusterEnvironment option" where
  "cluster_environment s = u_cluster_environment s"

section \<open>Selection of the precision plugin\<close>

text \<open>\<^verbatim>\<open>isinstance(obj, cls)\<close> on the class of a plugin object.\<close>

definition is_instance :: "ambient \<Rightarrow> strategy_class \<Rightarrow> strategy_class \<Rightarrow> bool" where
  "is_instance a c k = (c = k \<or> is_subclass a c k)"

definition plugin_is_instance :: "ambient \<Rightarrow> connector \<Rightarrow> nat option \<Rightarrow> strategy_class list \<Rightarrow> bool" where
  "plugin_is_instance a s ref ks =
     (case ref of
        None \<Rightarrow> False
      | Some r \<Rightarrow> list_ex (is_instance a (tt_class (store s r))) ks)"

definition is_sharded_training_type :: "ambient \<Rightarrow> connector \<Rightarrow> error + (bool \<times> connector)" where
  "is_sharded_training_type a s =
     (case training_type_plugin a s of
        Inl e \<Rightarrow> Inl e
      | Inr (ref, s1) \<Rightarrow>
          Inr (plugin_is_instance a s1 ref [DDPShardedPlugin, DDPSpawnShardedPlugin], s1))"

definition is_fully_sharded_training_type :: "ambient \<Rightarrow> connector \<Rightarrow> error + (bool \<times> connector)" where
  "is_fully_sharded_training_type a s =
     (case training_type_plugin a s of
        Inl e \<Rightarrow> Inl e
      | Inr (ref, s1) \<Rightarrow> Inr (plugin_is_instance a s1 ref [DDPFullyShardedPlugin], s1))"

text \<open>Lines 409-423: the Apex block and the final \<^verbatim>\<open>raise\<close>.\<close>

definition spp_apex :: "ambient \<Rightarrow> connector \<Rightarrow> error + (PrecisionPlugin \<times> connector)" where
  "spp_apex a s =
     (if amp_type s = AmpEnum APEX then
        if \<not> APEX_AVAILABLE a then Inl (MisconfigurationException ApexNotInstalled)
        else
          (case is_sharded_training_type a s of
             Inl e \<Rightarrow> Inl e
           | Inr (True, s1) \<Rightarrow> Inl (MisconfigurationException ShardedWithApex)
           | Inr (False, s1) \<Rightarrow>
               (case is_fully_sharded_training_type a s1 of
                  Inl e \<Rightarrow> Inl e
                | Inr (True, s2) \<Rightarrow> Inl (MisconfigurationException ShardedWithApex)
                | Inr (False, s2) \<Rightarrow>
                    Inr (ApexMixedPrecisionPlugin (amp_level s2),
                         s2\<lparr>messages := messages s2 @ [Info_Apex16]\<rparr>)))
      else Inl NotImplementedError)"

text \<open>Lines 387-407: the native block; it falls through to the Apex block.\<close>

definition spp_native :: "ambient \<Rightarrow> connector \<Rightarrow> error + (PrecisionPlugin \<times> connector)" where
  "spp_native a s =
     (if amp_type s = AmpEnum NATIVE then
        if on_cpu s then Inl (MisconfigurationException NativeAmpOnCpu)
        else if \<not> NATIVE_AMP_AVAILABLE a then
          if APEX_AVAILABLE a
          then spp_apex a (s\<lparr>amp_type := AmpEnum APEX,
                             messages := messages s @ [Warn_NativeAmpFallbackApex]\<rparr>)
          else Inl (MisconfigurationException NativeAmpUnsupported)
        else
          (case is_sharded_training_type a (s\<lparr>messages := messages s @ [Info_Native16]\<rparr>) of
             Inl e \<Rightarrow> Inl e
           | Inr (True, s1) \<Rightarrow> Inr (ShardedNativeMixedPrecisionPlugin, s1)
           | Inr (False, s1) \<Rightarrow>
               (case is_fully_sharded_training_type a s1 of
                  Inl e \<Rightarrow> Inl e
                | Inr (True, s2) \<Rightarrow> Inr (FullyShardedNativeMixedPrecisionPlugin, s2)
                | Inr (False, s2) \<Rightarrow> Inr (NativeMixedPrecisionPlugin, s2)))
      else spp_apex a s)"

definition select_precision_plugin :: "ambient \<Rightarrow> connector \<Rightarrow> error + (PrecisionPlugin \<times> connector)" where
  "select_precision_plugin a s =
     (case AMPType_from_str a (amp_type s) of
        Inl e \<Rightarrow> Inl e
      | Inr t \<Rightarrow>
          (let s0 = s\<lparr>amp_type := (case t of None \<Rightarrow> AmpNone | Some x \<Rightarrow> AmpEnum x)\<rparr>
           in if on_ipu s0 then Inr (IPUPrecisionPlugin (precision s0), s0)
              else if u_distrib_type s0 = Some DEEPSPEED
                      \<or> plugin_is_instance a s0 (u_training_type_plugin s0) [DeepSpeedPlugin]
              then Inr (DeepSpeedPrecisionPlugin (precision s0), s0)
              else if precision s0 = 32 then Inr (PrecisionPlugin, s0)
              else if precision s0 = 64 then Inr (DoublePrecisionPlugin, s0)
              else if precision s0 = 16 then
                if on_tpu s0 then Inr (TPUHalfPrecisionPlugin, s0)
                else spp_native a s0
              else Inl NotImplementedError))"

definition precision_plugin :: "ambient \<Rightarrow> connector \<Rightarrow> error + (PrecisionPlugin \<times> connector)" where
  "precision_plugin a s =
     (case u_precision_plugin s of
        Some p \<Rightarrow> Inr (p, s)
      | None \<Rightarrow>
          (case select_precision_plugin a s of
             Inl e \<Rightarrow> Inl e
           | Inr (p, s1) \<Rightarrow> Inr (p, s1\<lparr>u_precision_plugin := Some p\<rparr>)))"

section \<open>\<^verbatim>\<open>select_accelerator\<close>\<close>

definition select_accelerator :: "ambient \<Rightarrow> connector \<Rightarrow> error + (accelerator \<times> connector)" where
  "select_accelerator a s =
     (case distributed_backend s of
        BAccelerator acc \<Rightarrow>
          if u_precision_plugin s \<noteq> None \<or> u_training_type_plugin s \<noteq> None
          then Inr (acc, s\<lparr>messages := messages s @ [Warn_PluginsIgnored]\<rparr>)
          else Inr (acc, s)
      | _ \<Rightarrow>
          (let acc_cls = (if on_gpu a s then GPUAccelerator
                          else if on_tpu s then TPUAccelerator
                          else if on_ipu s then IPUAccelerator
                          else CPUAccelerator)
           in case training_type_plugin a s of
                Inl e \<Rightarrow> Inl e
              | Inr (tt, s1) \<Rightarrow>
                  (case precision_plugin a s1 of
                     Inl e \<Rightarrow> Inl e
                   | Inr (pp, s2) \<Rightarrow>
                       Inr (\<lparr>acc_id = next_ref s2, acc_class = acc_cls,
                             acc_training_type_plugin = tt,
                             acc_precision_plugin = Some pp\<rparr>,
                            s2\<lparr>next_ref := Suc (next_ref s2)\<rparr>))))"

section \<open>The constructor\<close>

record init_args =
  arg_num_processes :: "int option"
  arg_tpu_cores :: device_arg
  arg_ipus :: "int option"
  arg_distributed_backend :: backend
  arg_auto_select_gpus :: bool
  arg_gpus :: device_arg
  arg_num_nodes :: "int option"
  arg_sync_batchnorm :: bool
  arg_benchmark :: bool
  arg_replace_sampler_ddp :: bool
  arg_deterministic :: bool
  arg_precision :: int
  arg_amp_type :: "string option"
  arg_amp_level :: string
  arg_plugins :: plugins_arg

text \<open>The process-wide state in which the constructor starts.\<close>

record process =
  p_store :: "nat \<Rightarrow> strategy"
  p_next_ref :: nat
  p_messages :: "message list"
  p_environ :: "string \<Rightarrow> string option"
  p_cudnn_benchmark :: bool
  p_cudnn_deterministic :: bool
  p_hvd_initialized :: bool

text \<open>\<^verbatim>\<open>str.lower\<close> on the ASCII letters.\<close>

definition lower_char :: "char \<Rightarrow> char" where
  "lower_char c =
     (let n = (of_char c :: nat) in if 65 \<le> n \<and> n \<le> 90 then char_of (n + 32) else c)"

definition str_lower :: "string \<Rightarrow> string" where
  "str_lower v = map lower_char v"

text \<open>Lines 126-134: \<^verbatim>\<open>None\<close>, a string and a non-sequence each become a list.\<close>

definition normalize_plugins :: "plugins_arg \<Rightarrow> plugin_hint list" where
  "normalize_plugins p =
     (let p1 = (case p of PNone \<Rightarrow> PSeq [] | _ \<Rightarrow> p);
          p2 = (case p1 of PSingle (HStr name) \<Rightarrow> PSeq [HStr name] | _ \<Rightarrow> p1)
      in case p2 of
           PSeq hs \<Rightarrow> hs
         | PSingle h \<Rightarrow> [h]
         | PNone \<Rightarrow> [])"

text \<open>Lines 103-140: the fields before the first method call.\<close>

definition init_fields :: "ambient \<Rightarrow> init_args \<Rightarrow> process \<Rightarrow> error + connector" where
  "init_fields a args w =
     (case parse_tpu_cores a (arg_tpu_cores args) of
        Inl e \<Rightarrow> Inl e
      | Inr cores \<Rightarrow>
     (case (case arg_gpus args of
              DInt n \<Rightarrow> if arg_auto_select_gpus args
                        then (case pick_multiple_gpus a n of
                                Inl e \<Rightarrow> Inl e
                              | Inr l \<Rightarrow> Inr (DList l))
                        else Inr (DInt n)
            | g \<Rightarrow> Inr g) of
        Inl e \<Rightarrow> Inl e
      | Inr gpus1 \<Rightarrow>
     (case parse_gpu_ids a gpus1 of
        Inl e \<Rightarrow> Inl e
      | Inr ids \<Rightarrow>
          Inr \<lparr>u_device_type = CPU, u_distrib_type = None,
               num_processes = arg_num_processes args, tpu_cores = cores,
               ipus = arg_ipus args, distributed_backend = arg_distributed_backend args,
               auto_select_gpus = arg_auto_select_gpus args, gpus = gpus1,
               num_nodes = arg_num_nodes args, sync_batchnorm = arg_sync_batchnorm args,
               benchmark = arg_benchmark args,
               replace_sampler_ddp = arg_replace_sampler_ddp args,
               deterministic = arg_deterministic args, precision = arg_precision args,
               amp_type = (case arg_amp_type args of
                             Some v \<Rightarrow> AmpStr (str_lower v)
                           | None \<Rightarrow> AmpNone),
               amp_level = arg_amp_level args, is_slurm_managing_tasks = False,
               u_precision_plugin = None, u_training_type_plugin = None,
               u_cluster_environment = None,
               plugins = normalize_plugins (arg_plugins args),
               parallel_device_ids = ids, u_training_type_plugin_resolved = False,
               accelerator_f = None, world_size = 1, interactive_ddp_procs = [],
               global_rank = 0, store = p_store w, next_ref = p_next_ref w,
               messages = p_messages w, environ = p_environ w,
               cudnn_benchmark = p_cudnn_benchmark w,
               cudnn_deterministic = p_cudnn_deterministic w,
               hvd_initialized = p_hvd_initialized w\<rparr>)))"

text \<open>Lines 150-171: what follows \<^verbatim>\<open>select_accelerator\<close>.\<close>

definition init_finish :: "accelerator \<Rightarrow> connector \<Rightarrow> connector" where
  "init_finish acc s =
     (let s1 = s\<lparr>accelerator_f := Some acc\<rparr>;
          s2 = (if on_tpu s1 then s1\<lparr>distributed_backend := BStr ''tpu''\<rparr> else s1);
          s3 = s2\<lparr>world_size := 1, interactive_ddp_procs := [], global_rank := 0,
                  cudnn_benchmark := benchmark s2, cudnn_deterministic := deterministic s2\<rparr>
      in if deterministic s3
         then s3\<lparr>environ := (environ s3)(''HOROVOD_FUSION_THRESHOLD'' := Some ''0'')\<rparr>
         else s3)"

definition init :: "ambient \<Rightarrow> init_args \<Rightarrow> process \<Rightarrow> error + connector" where
  "init a args w =
     (case init_fields a args w of
        Inl e \<Rightarrow> Inl e
      | Inr s0 \<Rightarrow>
     (case set_distributed_mode a None s0 of
        Inl e \<Rightarrow> Inl e
      | Inr s1 \<Rightarrow>
     (case configure_slurm_ddp a s1 of
        Inl e \<Rightarrow> Inl e
      | Inr s2 \<Rightarrow>
     (case handle_given_plugins a s2 of
        Inl e \<Rightarrow> Inl e
      | Inr s3 \<Rightarrow>
     (case select_accelerator a (s3\<lparr>u_training_type_plugin_resolved := False\<rparr>) of
        Inl e \<Rightarrow> Inl e
      | Inr (acc, s4) \<Rightarrow> Inr (init_finish acc s4))))))"

section \<open>Categories of plugin hints\<close>





section \<open>Example inputs\<close>

text \<open>
  A host without GPUs, launchers or optional backends, and a connector as \<^verbatim>\<open>__init__\<close>
  leaves it before its first call of \<^verbatim>\<open>set_distributed_mode\<close>. The theorems below are
  instantiated at variations of these two.
\<close>

definition ex_strategy :: "strategy_class \<Rightarrow> strategy" where
  "ex_strategy c =
     \<lparr>tt_class = c, tt_parallel_devices = Some None, tt_num_processes = Some None,
      tt_cluster_environment = Some None, tt_num_nodes = Some None,
      tt_sync_batchnorm = Some None, tt_other = []\<rparr>"

definition ex_registry :: "string \<Rightarrow> registry_entry option" where
  "ex_registry name =
     (if name = ''ddp_sharded''
      then Some \<lparr>reg_plugin = DDPShardedPlugin, reg_distributed_backend = ''ddp_sharded'',
                 reg_instance = ex_strategy DDPShardedPlugin\<rparr>
      else if name = ''deepspeed''
      then Some \<lparr>reg_plugin = DeepSpeedPlugin, reg_distributed_backend = ''deepspeed'',
                 reg_instance = ex_strategy DeepSpeedPlugin\<rparr>
      else None)"

definition ex_DistributedType_of :: "string \<Rightarrow> DistributedType option" where
  "ex_DistributedType_of name =
     map_of [(''dp'', DP), (''ddp'', DDP), (''ddp2'', DDP2), (''ddp_spawn'', DDP_SPAWN),
             (''tpu_spawn'', TPU_SPAWN), (''deepspeed'', DEEPSPEED), (''horovod'', HOROVOD),
             (''ddp_sharded'', DDP_SHARDED), (''ddp_sharded_spawn'', DDP_SHARDED_SPAWN),
             (''ddp_fully_sharded'', DDP_FULLY_SHARDED)] name"

definition ex_construct :: "ctor_call \<Rightarrow> strategy" where
  "ex_construct c =
     (case c of
        NewParallel cls devs env \<Rightarrow>
          (ex_strategy cls)\<lparr>tt_parallel_devices := Some (Some devs),
                            tt_cluster_environment := Some env\<rparr>
      | NewDataParallel devs \<Rightarrow>
          (ex_strategy DataParallelPlugin)\<lparr>tt_parallel_devices := Some (Some devs)\<rparr>
      | NewHorovod devs \<Rightarrow>
          (ex_strategy HorovodPlugin)\<lparr>tt_parallel_devices := Some (Some devs)\<rparr>
      | NewSingleTPU i \<Rightarrow> (ex_strategy SingleTPUPlugin)\<lparr>tt_parallel_devices := None\<rparr>
      | NewIPU devs \<Rightarrow> (ex_strategy IPUPlugin)\<lparr>tt_parallel_devices := Some (Some devs)\<rparr>
      | NewSingleDevice d \<Rightarrow> (ex_strategy SingleDevicePlugin)\<lparr>tt_parallel_devices := None\<rparr>)"

definition ex_int_of_str :: "string \<Rightarrow> int option" where
  "ex_int_of_str v =
     map_of [(''0'', 0), (''1'', 1), (''2'', 2), (''3'', 3), (''4'', 4), (''8'', 8)] v"

definition ex_ambient :: ambient where
  "ex_ambient =
     \<lparr>cuda_is_available = False, cpu_count = Some 8, HOROVOD_AVAILABLE = False,
      APEX_AVAILABLE = False, NATIVE_AMP_AVAILABLE = True, TPU_AVAILABLE = False,
      IPU_AVAILABLE = False, IS_INTERACTIVE = False, hvd_local_size = 1,
      TrainingTypePluginsRegistry = ex_registry,
      DistributedType_of = ex_DistributedType_of,
      is_interactive_compatible = (\<lambda>t. t \<in> set [DP, DDP_SPAWN, DDP_SHARDED_SPAWN, TPU_SPAWN]),
      interactive_compatible_types = [DP, DDP_SPAWN, DDP_SHARDED_SPAWN, TPU_SPAWN],
      is_using_torchelastic = False, is_using_kubeflow = False,
      parse_tpu_cores = (\<lambda>v. case v of DNone \<Rightarrow> Inr TNone | DInt n \<Rightarrow> Inr (TInt n)
                                 | DList l \<Rightarrow> Inr (TList l) | DStr _ \<Rightarrow> Inl (ExternalError ''tpu_cores'')),
      pick_multiple_gpus = (\<lambda>n. Inr (py_range n)),
      parse_gpu_ids = (\<lambda>v. case v of DNone \<Rightarrow> Inr None | DInt n \<Rightarrow> Inr (if n = 0 then None else Some (py_range n))
                               | DList l \<Rightarrow> Inr (if l = [] then None else Some l)
                               | DStr _ \<Rightarrow> Inl (ExternalError ''gpus'')),
      determine_root_gpu_device = (\<lambda>g. case g of None \<Rightarrow> Inr None | Some [] \<Rightarrow> Inl (ExternalError ''gpus'')
                                           | Some (i # _) \<Rightarrow> Inr (Some i)),
      AMPType_from_str = (\<lambda>v. case v of AmpNone \<Rightarrow> Inl (ExternalError ''from_str'')
                                  | AmpEnum t \<Rightarrow> Inr (Some t)
                                  | AmpStr n \<Rightarrow> Inr (if n = ''native'' then Some NATIVE
                                                      else if n = ''apex'' then Some APEX else None)),
      int_of_str = ex_int_of_str,
      is_subclass = (\<lambda>c k. k = DDPPlugin \<and> c \<in> set [DDP2Plugin, DeepSpeedPlugin, DDPShardedPlugin, DDPFullyShardedPlugin]),
      construct = ex_construct\<rparr>"

definition ex_connector :: connector where
  "ex_connector =
     \<lparr>u_device_type = CPU, u_distrib_type = None, num_processes = Some 1, tpu_cores = TNone,
      ipus = None, distributed_backend = BNone, auto_select_gpus = False, gpus = DNone,
      num_nodes = Some 1, sync_batchnorm = False, benchmark = False,
      replace_sampler_ddp = True, deterministic = False, precision = 32,
      amp_type = AmpStr ''native'', amp_level = ''O2'', is_slurm_managing_tasks = False,
      u_precision_plugin = None, u_training_type_plugin = None, u_cluster_environment = None,
      plugins = [], parallel_device_ids = None, u_training_type_plugin_resolved = False,
      accelerator_f = None, world_size = 1, interactive_ddp_procs = [], global_rank = 0,
      store = (\<lambda>r. ex_strategy (CustomPlugin [])), next_ref = 0, messages = [],
      environ = (\<lambda>k. None), cudnn_benchmark = False, cudnn_deterministic = False,
      hvd_initialized = False\<rparr>"

text \<open>An environment of a SLURM job with four tasks.\<close>

definition ex_slurm_environ :: "string \<Rightarrow> string option \<Rightarrow> string \<Rightarrow> string option" where
  "ex_slurm_environ job fake k =
     (if k = ''SLURM_NTASKS'' then Some ''4''
      else if k = ''SLURM_JOB_NAME'' then Some job
      else if k = ''FAKE_SLURM_MANAGING_TASKS'' then fake
      else None)"

text \<open>Constructor arguments with their defaults, and a fresh process.\<close>

definition ex_args :: init_args where
  "ex_args =
     \<lparr>arg_num_processes = Some 1, arg_tpu_cores = DNone, arg_ipus = None,
      arg_distributed_backend = BNone, arg_auto_select_gpus = False, arg_gpus = DNone,
      arg_num_nodes = Some 1, arg_sync_batchnorm = False, arg_benchmark = False,
      arg_replace_sampler_ddp = True, arg_deterministic = False, arg_precision = 32,
      arg_amp_type = Some ''native'', arg_amp_level = ''O2'', arg_plugins = PNone\<rparr>"

definition ex_process :: process where
  "ex_process =
     \<lparr>p_store = (\<lambda>r. ex_strategy (CustomPlugin [])), p_next_ref = 0, p_messages = [],
      p_environ = (\<lambda>k. None), p_cudnn_benchmark = False, p_cudnn_deterministic = False,
      p_hvd_initialized = False\<rparr>"

section \<open>The hardware-availability guard\<close>



section \<open>Multi-node validation\<close>

text \<open>No block of \<^verbatim>\<open>set_distributed_mode\<close> assigns \<^verbatim>\<open>self.num_nodes\<close>.\<close>

lemma set_horovod_backend_num_nodes:
  "set_horovod_backend a s = Inr s' \<Longrightarrow> num_nodes s' = num_nodes s"
  by (auto simp: set_horovod_backend_def Let_def split: sum.splits if_splits)

lemma sdm_no_backend_num_nodes:
  "sdm_no_backend a s = Inr s' \<Longrightarrow> num_nodes s' = num_nodes s"
  by (auto simp: sdm_no_backend_def dest: set_horovod_backend_num_nodes
           split: sum.splits if_splits bool.splits)

lemma sdm_special_cases_num_nodes:
  "sdm_special_cases a s = Inr s' \<Longrightarrow> num_nodes s' = num_nodes s"
  by (auto simp: sdm_special_cases_def sdm_ddp_cpu_def Let_def
           split: if_splits tpu_cores_value.splits backend.splits option.splits)

lemma sdm_gpu_guard_num_nodes: "num_nodes (sdm_gpu_guard s) = num_nodes s"
  by (simp add: sdm_gpu_guard_def Let_def)

lemma sdm_promote_gpu_num_nodes: "num_nodes (sdm_promote_gpu s) = num_nodes s"
  by (simp add: sdm_promote_gpu_def)

lemma sdm_num_processes_num_nodes: "num_nodes (sdm_num_processes s) = num_nodes s"
  by (simp add: sdm_num_processes_def Let_def)

lemma sdm_horovod_num_nodes:
  "sdm_horovod a s = Inr s' \<Longrightarrow> num_nodes s' = num_nodes s"
  by (auto simp: sdm_horovod_def dest: set_horovod_backend_num_nodes split: if_splits)

lemma sdm_configure_num_nodes:
  assumes "sdm_configure a s = Inr s'"
  shows "num_nodes s' = num_nodes s"
proof -
  from assms obtain s1 s2 where
    s1: "sdm_no_backend a s = Inr s1" and
    s2: "sdm_special_cases a s1 = Inr s2" and
    s4: "sdm_horovod a (sdm_num_processes (sdm_gpu_guard (sdm_promote_gpu s2))) = Inr s'"
    by (auto simp: sdm_configure_def Let_def split: sum.splits)
  show ?thesis
    using sdm_no_backend_num_nodes [OF s1] sdm_special_cases_num_nodes [OF s2]
      sdm_horovod_num_nodes [OF s4]
    by (simp add: sdm_num_processes_num_nodes sdm_gpu_guard_num_nodes sdm_promote_gpu_num_nodes)
qed

lemma sdm_assign_backend_num_nodes: "num_nodes (sdm_assign_backend a arg s) = num_nodes s"
  by (simp add: sdm_assign_backend_def split: option.splits)

lemma sdm_report_distrib_type: "u_distrib_type (sdm_report a s) = u_distrib_type s"
  by (simp add: sdm_report_def Let_def)

lemma use_ddp_report: "use_ddp (sdm_report a s) = use_ddp s"
  by (simp add: use_ddp_def sdm_report_distrib_type)

lemma use_ddp2_report: "use_ddp2 (sdm_report a s) = use_ddp2 s"
  by (simp add: use_ddp2_def sdm_report_distrib_type)

text \<open>
  Claim C1, as amended. Take a call of \<^verbatim>\<open>set_distributed_mode\<close> with a node count
  above 1 that passes both early returns (no registered training-type name among the
  plugins when no name is given, and no \<^verbatim>\<open>Accelerator\<close> instance as backend). If the
  blocks before the validation raise, so does the call. Otherwise the call returns
  exactly when the final distributed type satisfies \<^verbatim>\<open>use_ddp\<close> (DDP, DDP_SPAWN,
  DDP_SHARDED, DDP_SHARDED_SPAWN, DDP_FULLY_SHARDED, DEEPSPEED or TPU_SPAWN) or
  \<^verbatim>\<open>use_ddp2\<close>, and raises the multi-node \<^verbatim>\<open>MisconfigurationException\<close> for every
  other final type. So a multi-node call that returns has one of these types.
\<close>

theorem set_distributed_mode_multi_node:
  assumes nodes: "num_nodes s = Some n" "n > 1"
    and no_skip: "\<not> (arg = None \<and> is_training_type_in_plugins a s)"
    and no_acc: "\<not> is_Accelerator (distributed_backend (sdm_assign_backend a arg s))"
  shows "set_distributed_mode a arg s =
           (case sdm_configure a (sdm_assign_backend a arg s) of
              Inl e \<Rightarrow> Inl e
            | Inr s4 \<Rightarrow>
                if use_ddp s4 \<or> use_ddp2 s4 then Inr (sdm_report a s4)
                else Inl (MisconfigurationException MultiNodeUnsupported))
         \<and> (\<forall>s'. set_distributed_mode a arg s = Inr s' \<longrightarrow> use_ddp s' \<or> use_ddp2 s')"
proof -
  let ?s1 = "sdm_assign_backend a arg s"
  have validate: "sdm_validate_nodes s4 =
      (if use_ddp s4 \<or> use_ddp2 s4 then Inr s4
       else Inl (MisconfigurationException MultiNodeUnsupported))"
    if "sdm_configure a ?s1 = Inr s4" for s4
  proof -
    have "num_nodes s4 = Some n"
      using sdm_configure_num_nodes [OF that] nodes(1)
      by (simp add: sdm_assign_backend_num_nodes)
    then show ?thesis
      using nodes(2) by (simp add: sdm_validate_nodes_def py_gt1_def Let_def)
  qed
  have body: "set_distributed_mode a arg s = sdm_resolve a ?s1"
    using no_skip no_acc by (auto simp: set_distributed_mode_def Let_def)
  have eq: "set_distributed_mode a arg s =
           (case sdm_configure a ?s1 of
              Inl e \<Rightarrow> Inl e
            | Inr s4 \<Rightarrow>
                if use_ddp s4 \<or> use_ddp2 s4 then Inr (sdm_report a s4)
                else Inl (MisconfigurationException MultiNodeUnsupported))"
  proof (cases "sdm_configure a ?s1")
    case (Inl e)
    then show ?thesis
      by (simp add: body sdm_resolve_def)
  next
    case (Inr s4)
    then show ?thesis
      using validate [OF Inr] by (simp add: body sdm_resolve_def)
  qed
  have "use_ddp s' \<or> use_ddp2 s'" if "set_distributed_mode a arg s = Inr s'" for s'
    using that unfolding eq
    by (auto simp: use_ddp_report use_ddp2_report split: sum.splits if_splits)
  with eq show ?thesis by blast
qed


text \<open>The definitions that a run of \<^verbatim>\<open>set_distributed_mode\<close> on a concrete input unfolds.\<close>

lemmas sdm_defs =
  set_distributed_mode_def sdm_resolve_def sdm_configure_def sdm_assign_backend_def
  sdm_no_backend_def sdm_special_cases_def sdm_ddp_cpu_def sdm_on_cpu_def sdm_promote_gpu_def
  sdm_gpu_guard_def gpu_distrib_types_def sdm_num_processes_def sdm_horovod_def
  sdm_validate_nodes_def sdm_report_def is_Accelerator_def check_interactive_compatibility_def
  set_horovod_backend_def check_horovod_def is_training_type_in_plugins_def is_registered_def
  has_horovodrun_def py_gt1_def py_gt1_or_def py_truthy_gt1_def py_range_def
  num_gpus_def on_cpu_def on_tpu_def on_ipu_def on_gpu_def
  use_dp_def use_ddp_def use_ddp2_def use_horovod_def use_deepspeed_def

lemmas ex_defs =
  ex_ambient_def ex_connector_def ex_registry_def ex_DistributedType_of_def
  ex_construct_def ex_strategy_def ex_int_of_str_def

text \<open>
  Two nodes with one GPU: DP is rejected by the validation, DDP2 is accepted.
\<close>

theorem set_distributed_mode_multi_node_witness:
  "set_distributed_mode ex_ambient None
     (ex_connector\<lparr>distributed_backend := BStr ''dp'', parallel_device_ids := Some [0],
                   num_nodes := Some 2\<rparr>)
     = Inl (MisconfigurationException MultiNodeUnsupported)
   \<and> set_distributed_mode ex_ambient None
       (ex_connector\<lparr>distributed_backend := BStr ''ddp2'', parallel_device_ids := Some [0],
                     num_nodes := Some 2\<rparr>)
     = Inr (ex_connector\<lparr>distributed_backend := BStr ''ddp2'', parallel_device_ids := Some [0],
                          num_nodes := Some 2, u_distrib_type := Some DDP2,
                          u_device_type := GPU, num_processes := Some 2,
                          messages := [Info_GpuAvailable False True,
                                       Info_TpuAvailable False (TInt 0),
                                       Info_IpuAvailable False 0]\<rparr>)"
  using set_distributed_mode_multi_node
          [of "ex_connector\<lparr>distributed_backend := BStr ''dp'', parallel_device_ids := Some [0],
                             num_nodes := Some 2\<rparr>" 2 None ex_ambient]
        set_distributed_mode_multi_node
          [of "ex_connector\<lparr>distributed_backend := BStr ''ddp2'', parallel_device_ids := Some [0],
                             num_nodes := Some 2\<rparr>" 2 None ex_ambient]
  by (simp add: sdm_defs ex_defs Let_def)

text \<open>
  Claim C1 as stated fails: with two nodes and the backend \<^verbatim>\<open>ddp_cpu\<close> the final type
  is DDP_SPAWN, neither DDP nor DDP2, and the call returns without an error.
\<close>

theorem set_distributed_mode_ddp_spawn_multi_node:
  "set_distributed_mode ex_ambient None
     (ex_connector\<lparr>distributed_backend := BStr ''ddp_cpu'', num_nodes := Some 2\<rparr>)
     = Inr (ex_connector\<lparr>distributed_backend := BStr ''ddp_cpu'', num_nodes := Some 2,
                          u_distrib_type := Some DDP_SPAWN,
                          messages := [Info_GpuAvailable False False,
                                       Info_TpuAvailable False (TInt 0),
                                       Info_IpuAvailable False 0]\<rparr>)"
  by (simp add: sdm_defs ex_defs Let_def)

section \<open>The backend \<^verbatim>\<open>ddp_cpu\<close>\<close>




section \<open>Detection of tasks managed by SLURM\<close>

lemma slurm_try_iff:
  "slurm_try a s r \<longleftrightarrow>
     (\<exists>v t j. environ s ''SLURM_NTASKS'' = Some v \<and> int_of_str a v = Some t
        \<and> (if r = 0 then num_processes s = Some t else t = r)
        \<and> environ s ''SLURM_JOB_NAME'' = Some j \<and> j \<noteq> ''bash'')"
proof (cases "environ s ''SLURM_NTASKS''")
  case None
  then show ?thesis by (simp add: slurm_try_def)
next
  case tasks: (Some v)
  show ?thesis
  proof (cases "int_of_str a v")
    case None
    with tasks show ?thesis by (simp add: slurm_try_def)
  next
    case parsed: (Some t)
    show ?thesis
    proof (cases "environ s ''SLURM_JOB_NAME''")
      case None
      with tasks parsed show ?thesis by (simp add: slurm_try_def Let_def)
    next
      case (Some j)
      with tasks parsed show ?thesis
        by (cases "r = 0") (auto simp: slurm_try_def Let_def)
    qed
  qed
qed

lemma slurm_fake_inactive:
  assumes "\<forall>v k. environ s ''FAKE_SLURM_MANAGING_TASKS'' = Some v \<longrightarrow> int_of_str a v = Some k \<longrightarrow> k = 0"
  shows "slurm_fake a (s\<lparr>is_slurm_managing_tasks := b\<rparr>) = s\<lparr>is_slurm_managing_tasks := b\<rparr>"
  using assms by (auto simp: slurm_fake_def split: option.splits)

text \<open>
  Claim C5, as amended. Let the distributed type satisfy \<^verbatim>\<open>use_ddp\<close> or \<^verbatim>\<open>use_ddp2\<close>,
  and let the test-only variable \<^verbatim>\<open>FAKE_SLURM_MANAGING_TASKS\<close> be absent, malformed or
  zero. Then \<^verbatim>\<open>configure_slurm_ddp\<close> never raises, and it sets
  \<^verbatim>\<open>is_slurm_managing_tasks\<close> to true exactly when \<^verbatim>\<open>SLURM_NTASKS\<close> is present and
  parses to an integer that equals GPU count times node count (or, when that product is
  zero, equals the process count) and \<^verbatim>\<open>SLURM_JOB_NAME\<close> is present and is not
  \<^verbatim>\<open>bash\<close>. So a \<^verbatim>\<open>bash\<close> job name, a missing variable and a malformed task count
  each give false. Only the flag and the message list change.
\<close>

theorem configure_slurm_ddp_detects:
  assumes kind: "use_ddp s \<or> use_ddp2 s"
    and nodes: "num_nodes s = Some n"
    and no_fake: "\<forall>v k. environ s ''FAKE_SLURM_MANAGING_TASKS'' = Some v
                    \<longrightarrow> int_of_str a v = Some k \<longrightarrow> k = 0"
  shows "configure_slurm_ddp a s =
           (if (\<exists>v t j. environ s ''SLURM_NTASKS'' = Some v \<and> int_of_str a v = Some t
                  \<and> (if num_gpus s * n = 0 then num_processes s = Some t
                      else t = num_gpus s * n)
                  \<and> environ s ''SLURM_JOB_NAME'' = Some j \<and> j \<noteq> ''bash'')
            then Inr (s\<lparr>is_slurm_managing_tasks := True,
                        messages := messages s @ [Info_SlurmManaging]\<rparr>)
            else Inr (s\<lparr>is_slurm_managing_tasks := False\<rparr>))"
proof -
  let ?b = "slurm_try a s (num_gpus s * n)"
  let ?D = "\<exists>v t j. environ s ''SLURM_NTASKS'' = Some v \<and> int_of_str a v = Some t
                  \<and> (if num_gpus s * n = 0 then num_processes s = Some t
                      else t = num_gpus s * n)
                  \<and> environ s ''SLURM_JOB_NAME'' = Some j \<and> j \<noteq> ''bash''"
  have iff: "?b = ?D"
    by (rule slurm_try_iff)
  have run: "configure_slurm_ddp a s =
          (if ?b then Inr (s\<lparr>is_slurm_managing_tasks := ?b,
                             messages := messages s @ [Info_SlurmManaging]\<rparr>)
           else Inr (s\<lparr>is_slurm_managing_tasks := ?b\<rparr>))"
    using kind nodes
    by (simp add: configure_slurm_ddp_def Let_def slurm_fake_inactive [OF no_fake])
  show ?thesis
  proof (cases ?b)
    case True
    with iff have "?D" by blast
    then have "(if ?D then Inr (s\<lparr>is_slurm_managing_tasks := True,
                        messages := messages s @ [Info_SlurmManaging]\<rparr>)
            else Inr (s\<lparr>is_slurm_managing_tasks := False\<rparr>))
          = (Inr (s\<lparr>is_slurm_managing_tasks := True,
                        messages := messages s @ [Info_SlurmManaging]\<rparr>) :: error + connector)"
      by (rule if_P)
    moreover have "configure_slurm_ddp a s = Inr (s\<lparr>is_slurm_managing_tasks := True,
                        messages := messages s @ [Info_SlurmManaging]\<rparr>)"
      using run True by simp
    ultimately show ?thesis by (rule ssubst)
  next
    case False
    with iff have "\<not> ?D" by blast
    then have "(if ?D then Inr (s\<lparr>is_slurm_managing_tasks := True,
                        messages := messages s @ [Info_SlurmManaging]\<rparr>)
            else Inr (s\<lparr>is_slurm_managing_tasks := False\<rparr>))
          = (Inr (s\<lparr>is_slurm_managing_tasks := False\<rparr>) :: error + connector)"
      by (rule if_not_P)
    moreover have "configure_slurm_ddp a s = Inr (s\<lparr>is_slurm_managing_tasks := False\<rparr>)"
      using run False by simp
    ultimately show ?thesis by (rule ssubst)
  qed
qed

text \<open>The definitions that a run of \<^verbatim>\<open>configure_slurm_ddp\<close> on a concrete input unfolds.\<close>

lemmas slurm_defs = configure_slurm_ddp_def slurm_try_def slurm_fake_def
  use_ddp_def use_ddp2_def num_gpus_def

text \<open>The fields of the example connector, for evaluation without unfolding the record.\<close>

lemma ex_connector_sel:
  "u_device_type ex_connector = CPU"
  "u_distrib_type ex_connector = None"
  "num_processes ex_connector = Some 1"
  "tpu_cores ex_connector = TNone"
  "ipus ex_connector = None"
  "distributed_backend ex_connector = BNone"
  "auto_select_gpus ex_connector = False"
  "gpus ex_connector = DNone"
  "num_nodes ex_connector = Some 1"
  "sync_batchnorm ex_connector = False"
  "benchmark ex_connector = False"
  "replace_sampler_ddp ex_connector = True"
  "deterministic ex_connector = False"
  "precision ex_connector = 32"
  "amp_type ex_connector = AmpStr ''native''"
  "amp_level ex_connector = ''O2''"
  "is_slurm_managing_tasks ex_connector = False"
  "u_precision_plugin ex_connector = None"
  "u_training_type_plugin ex_connector = None"
  "u_cluster_environment ex_connector = None"
  "plugins ex_connector = []"
  "parallel_device_ids ex_connector = None"
  "u_training_type_plugin_resolved ex_connector = False"
  "accelerator_f ex_connector = None"
  "world_size ex_connector = 1"
  "interactive_ddp_procs ex_connector = []"
  "global_rank ex_connector = 0"
  "store ex_connector = (\<lambda>r. ex_strategy (CustomPlugin []))"
  "next_ref ex_connector = 0"
  "messages ex_connector = []"
  "environ ex_connector = (\<lambda>k. None)"
  "cudnn_benchmark ex_connector = False"
  "cudnn_deterministic ex_connector = False"
  "hvd_initialized ex_connector = False"
  by (simp_all add: ex_connector_def)


text \<open>Two GPUs on each of two nodes, four SLURM tasks, launched as the job \<^verbatim>\<open>train\<close>.\<close>

theorem configure_slurm_ddp_detects_witness:
  "configure_slurm_ddp ex_ambient
     (ex_connector\<lparr>u_distrib_type := Some DDP, parallel_device_ids := Some [0, 1],
                   num_nodes := Some 2, environ := ex_slurm_environ ''train'' None\<rparr>)
     = Inr (ex_connector\<lparr>u_distrib_type := Some DDP, parallel_device_ids := Some [0, 1],
                          num_nodes := Some 2, environ := ex_slurm_environ ''train'' None,
                          is_slurm_managing_tasks := True,
                          messages := [Info_SlurmManaging]\<rparr>)"
proof -
  let ?s = "ex_connector\<lparr>u_distrib_type := Some DDP, parallel_device_ids := Some [0, 1],
                   num_nodes := Some 2, environ := ex_slurm_environ ''train'' None\<rparr>"
  have kind: "use_ddp ?s \<or> use_ddp2 ?s"
    by (simp add: use_ddp_def)
  have nodes: "num_nodes ?s = Some 2"
    by simp
  have no_fake: "\<forall>v k. environ ?s ''FAKE_SLURM_MANAGING_TASKS'' = Some v
                    \<longrightarrow> int_of_str ex_ambient v = Some k \<longrightarrow> k = 0"
    by (simp add: ex_slurm_environ_def)
  have tasks: "environ ?s ''SLURM_NTASKS'' = Some ''4''"
    and job: "environ ?s ''SLURM_JOB_NAME'' = Some ''train''"
    by (simp_all add: ex_slurm_environ_def)
  have parsed: "int_of_str ex_ambient ''4'' = Some 4"
    by (simp add: ex_ambient_def ex_int_of_str_def)
  have requested: "num_gpus ?s * 2 = 4"
    by (simp add: num_gpus_def)
  have found: "\<exists>v t j. environ ?s ''SLURM_NTASKS'' = Some v \<and> int_of_str ex_ambient v = Some t
                  \<and> (if num_gpus ?s * 2 = 0 then num_processes ?s = Some t
                      else t = num_gpus ?s * 2)
                  \<and> environ ?s ''SLURM_JOB_NAME'' = Some j \<and> j \<noteq> ''bash''"
    using tasks job parsed requested by auto
  show ?thesis
    using configure_slurm_ddp_detects [OF kind nodes no_fake] found
    by (simp add: ex_connector_sel)
qed

text \<open>
  Claim C5 as stated fails: with the job name \<^verbatim>\<open>bash\<close> and a task count that matches
  nothing, \<^verbatim>\<open>FAKE_SLURM_MANAGING_TASKS=1\<close> still makes the flag true.
\<close>

theorem configure_slurm_ddp_fake_override:
  "configure_slurm_ddp ex_ambient
     (ex_connector\<lparr>u_distrib_type := Some DDP, environ := ex_slurm_environ ''bash'' (Some ''1'')\<rparr>)
     = Inr (ex_connector\<lparr>u_distrib_type := Some DDP,
                          environ := ex_slurm_environ ''bash'' (Some ''1''),
                          is_slurm_managing_tasks := True,
                          messages := [Info_SlurmManaging]\<rparr>)"
  by (simp add: configure_slurm_ddp_def slurm_try_def slurm_fake_def use_ddp_def num_gpus_def
        ex_connector_sel ex_ambient_def ex_int_of_str_def ex_slurm_environ_def Let_def)

section \<open>Back-fill\<close>

lemma backfill_unset_devices:
  assumes "backfill a s p = Inr p'" and "tt_parallel_devices p = Some None"
  shows "\<exists>devs. parallel_devices a s = Inr devs
           \<and> tt_parallel_devices p' = Some (Some devs)
           \<and> tt_num_processes p' =
               (if tt_num_processes p = None then None else Some (Some (int (length devs))))"
  using assms by (auto simp: backfill_def Let_def split: sum.splits if_splits)

lemma backfill_set_devices:
  assumes "backfill a s p = Inr p'" and "tt_parallel_devices p \<noteq> Some None"
  shows "tt_parallel_devices p' = tt_parallel_devices p \<and> tt_num_processes p' = tt_num_processes p"
  using assms by (auto simp: backfill_def Let_def split: sum.splits if_splits)

lemma backfill_rest:
  assumes "backfill a s p = Inr p'"
  shows "tt_cluster_environment p' =
           (if tt_cluster_environment p = Some None
            then Some (Some (select_cluster_environment a s))
            else tt_cluster_environment p)"
    and "tt_num_nodes p' = (if tt_num_nodes p = None then None else Some (num_nodes s))"
    and "tt_sync_batchnorm p' =
           (if tt_sync_batchnorm p = None then None else Some (Some (sync_batchnorm s)))"
    and "tt_class p' = tt_class p"
    and "tt_other p' = tt_other p"
  using assms by (auto simp: backfill_def Let_def split: sum.splits if_splits)

lemma backfill_raises:
  "(backfill a s p = Inl e) = (tt_parallel_devices p = Some None \<and> parallel_devices a s = Inl e)"
  by (auto simp: backfill_def Let_def split: sum.splits if_splits)

text \<open>
  Claim C9. When \<^verbatim>\<open>resolve_training_type_plugin\<close> returns, it returns the reference it
  was given, the connector is unchanged apart from the store, and in the store only the
  object behind that reference changed. Of that object: the device list is set, to the
  connector's \<^verbatim>\<open>parallel_devices\<close>, only if it was \<^verbatim>\<open>None\<close>, and then the process
  count, if the object has one, becomes the length of that list; otherwise both keep
  their values. The cluster environment is set only if it was \<^verbatim>\<open>None\<close>. The node
  count and the batch-norm flag, where the object has them, are overwritten from the
  connector. The class and every other attribute are unchanged.
\<close>

theorem resolve_training_type_plugin_frame:
  assumes "resolve_training_type_plugin a r s = Inr (r', s')"
  shows "r' = r
         \<and> s' = s\<lparr>store := store s'\<rparr>
         \<and> (\<forall>q. q \<noteq> r \<longrightarrow> store s' q = store s q)
         \<and> (if tt_parallel_devices (store s r) = Some None
            then \<exists>devs. parallel_devices a s = Inr devs
                   \<and> tt_parallel_devices (store s' r) = Some (Some devs)
                   \<and> tt_num_processes (store s' r) =
                       (if tt_num_processes (store s r) = None then None
                        else Some (Some (int (length devs))))
            else tt_parallel_devices (store s' r) = tt_parallel_devices (store s r)
                 \<and> tt_num_processes (store s' r) = tt_num_processes (store s r))
         \<and> tt_cluster_environment (store s' r) =
             (if tt_cluster_environment (store s r) = Some None
              then Some (Some (select_cluster_environment a s))
              else tt_cluster_environment (store s r))
         \<and> tt_num_nodes (store s' r) =
             (if tt_num_nodes (store s r) = None then None else Some (num_nodes s))
         \<and> tt_sync_batchnorm (store s' r) =
             (if tt_sync_batchnorm (store s r) = None then None
              else Some (Some (sync_batchnorm s)))
         \<and> tt_class (store s' r) = tt_class (store s r)
         \<and> tt_other (store s' r) = tt_other (store s r)"
proof -
  from assms obtain p' where
    p': "backfill a s (store s r) = Inr p'" and
    r': "r' = r" and s': "s' = s\<lparr>store := (store s)(r := p')\<rparr>"
    by (auto simp: resolve_training_type_plugin_def split: sum.splits)
  have at_r: "store s' r = p'" and frame: "\<forall>q. q \<noteq> r \<longrightarrow> store s' q = store s q"
    and rest: "s' = s\<lparr>store := store s'\<rparr>"
    by (simp_all add: s')
  have devs: "if tt_parallel_devices (store s r) = Some None
            then \<exists>devs. parallel_devices a s = Inr devs
                   \<and> tt_parallel_devices p' = Some (Some devs)
                   \<and> tt_num_processes p' =
                       (if tt_num_processes (store s r) = None then None
                        else Some (Some (int (length devs))))
            else tt_parallel_devices p' = tt_parallel_devices (store s r)
                 \<and> tt_num_processes p' = tt_num_processes (store s r)"
    using backfill_unset_devices [OF p'] backfill_set_devices [OF p']
    by (cases "tt_parallel_devices (store s r) = Some None") simp_all
  show ?thesis
    unfolding at_r using r' rest frame devs backfill_rest [OF p'] by blast
qed

section \<open>Memoization\<close>

text \<open>After a read that returned, the flag is set and the field holds the value read.\<close>

lemma training_type_plugin_resolved:
  assumes "training_type_plugin a s = Inr (r, s1)"
  shows "u_training_type_plugin_resolved s1 \<and> u_training_type_plugin s1 = r"
proof (cases "u_training_type_plugin_resolved s")
  case True
  with assms show ?thesis by (auto simp: training_type_plugin_def)
next
  case False
  with assms show ?thesis
    by (auto simp: training_type_plugin_def split: sum.splits option.splits)
qed

lemma training_type_plugin_again:
  assumes "training_type_plugin a s = Inr (r, s1)"
  shows "training_type_plugin a s1 = Inr (r, s1)"
  using training_type_plugin_resolved [OF assms] by (simp add: training_type_plugin_def)

text \<open>The back-fill does not read the field that holds the plugin.\<close>

lemma backfill_ignores_plugin_field:
  "backfill a (s\<lparr>u_training_type_plugin := x\<rparr>) p = backfill a s p"
proof -
  have devices: "parallel_devices a (s\<lparr>u_training_type_plugin := x\<rparr>) = parallel_devices a s"
    by (simp add: parallel_devices_def on_gpu_def on_tpu_def on_ipu_def)
  have env: "select_cluster_environment a (s\<lparr>u_training_type_plugin := x\<rparr>)
               = select_cluster_environment a s"
    by (simp add: select_cluster_environment_def)
  show ?thesis
    by (auto simp: backfill_def devices env Let_def split: sum.splits)
qed

text \<open>The first read, in full: selection unless a plugin is given, back-fill, memoization.\<close>

lemma training_type_plugin_first_read:
  assumes "\<not> u_training_type_plugin_resolved s"
  shows "training_type_plugin a s =
           (case (case u_training_type_plugin s of
                    None \<Rightarrow> select_training_type_plugin a s
                  | Some r \<Rightarrow> Inr (r, s)) of
              Inl e \<Rightarrow> Inl e
            | Inr (r0, s0) \<Rightarrow>
                (case backfill a s0 (store s0 r0) of
                   Inl e \<Rightarrow> Inl e
                 | Inr p \<Rightarrow>
                     Inr (Some r0,
                          s0\<lparr>u_training_type_plugin := Some r0,
                             u_training_type_plugin_resolved := True,
                             store := (store s0)(r0 := p)\<rparr>)))"
proof (cases "u_training_type_plugin s")
  case None
  show ?thesis
  proof (cases "select_training_type_plugin a s")
    case (Inl e)
    with None assms show ?thesis by (simp add: training_type_plugin_def)
  next
    case (Inr res)
    obtain r0 s0 where res: "res = (r0, s0)" by (cases res)
    show ?thesis
    proof (cases "backfill a s0 (store s0 r0)")
      case (Inl e)
      with None assms Inr res show ?thesis
        by (simp add: training_type_plugin_def resolve_training_type_plugin_def
            backfill_ignores_plugin_field)
    next
      case p: (Inr p)
      with None assms Inr res show ?thesis
        by (simp add: training_type_plugin_def resolve_training_type_plugin_def
            backfill_ignores_plugin_field)
    qed
  qed
next
  case (Some r0)
  then have same: "s\<lparr>u_training_type_plugin := Some r0\<rparr> = s" by simp
  show ?thesis
  proof (cases "backfill a s (store s r0)")
    case (Inl e)
    with Some assms show ?thesis
      by (simp add: training_type_plugin_def resolve_training_type_plugin_def)
  next
    case p: (Inr p)
    have "s\<lparr>store := (store s)(r0 := p), u_training_type_plugin := Some r0,
             u_training_type_plugin_resolved := True\<rparr>
          = s\<lparr>u_training_type_plugin := Some r0, u_training_type_plugin_resolved := True,
               store := (store s)(r0 := p)\<rparr>"
      by simp
    with Some assms p show ?thesis
      by (simp add: training_type_plugin_def resolve_training_type_plugin_def)
  qed
qed

text \<open>
  Claim C7. A read of \<^verbatim>\<open>training_type_plugin\<close> on an unresolved connector is exactly
  this: the selection runs, unless a plugin object is already given; the back-fill runs
  on the selected object; and when neither raises, the read returns the reference of
  that object, with the back-filled object stored behind it, the reference kept in the
  connector and the resolved flag set. A read on a resolved connector returns the kept
  reference and changes nothing. So whenever a read returns the reference \<open>r\<close> and
  leaves the connector \<open>s1\<close>, the flag is set in \<open>s1\<close> and a second read returns the
  same reference \<open>r\<close> and leaves \<open>s1\<close> as it is: nothing is selected, allocated or
  back-filled again.
\<close>

theorem training_type_plugin_memoized:
  "(\<not> u_training_type_plugin_resolved s \<longrightarrow>
      training_type_plugin a s =
        (case (case u_training_type_plugin s of
                 None \<Rightarrow> select_training_type_plugin a s
               | Some r \<Rightarrow> Inr (r, s)) of
           Inl e \<Rightarrow> Inl e
         | Inr (r0, s0) \<Rightarrow>
             (case backfill a s0 (store s0 r0) of
                Inl e \<Rightarrow> Inl e
              | Inr p \<Rightarrow>
                  Inr (Some r0,
                       s0\<lparr>u_training_type_plugin := Some r0,
                          u_training_type_plugin_resolved := True,
                          store := (store s0)(r0 := p)\<rparr>))))
   \<and> (u_training_type_plugin_resolved s \<longrightarrow>
         training_type_plugin a s = Inr (u_training_type_plugin s, s))
   \<and> (\<forall>r s1. training_type_plugin a s = Inr (r, s1) \<longrightarrow>
         u_training_type_plugin_resolved s1 \<and> u_training_type_plugin s1 = r
         \<and> training_type_plugin a s1 = Inr (r, s1))"
proof -
  have second: "u_training_type_plugin_resolved s1 \<and> u_training_type_plugin s1 = r
         \<and> training_type_plugin a s1 = Inr (r, s1)"
    if "training_type_plugin a s = Inr (r, s1)" for r s1
    using training_type_plugin_resolved [OF that] training_type_plugin_again [OF that]
    by simp
  have memo: "training_type_plugin a s = Inr (u_training_type_plugin s, s)"
    if "u_training_type_plugin_resolved s"
    using that by (simp add: training_type_plugin_def)
  from training_type_plugin_first_read [of s a] memo second show ?thesis by blast
qed

section \<open>A custom accelerator\<close>

text \<open>
  Claim C8. When \<^verbatim>\<open>distributed_backend\<close> is an \<^verbatim>\<open>Accelerator\<close> instance,
  \<^verbatim>\<open>select_accelerator\<close> returns that instance and never raises. The connector and the
  store of plugin objects are unchanged, so no training-type or precision plugin was
  selected; the only effect is one warning, emitted exactly when a precision or
  training-type plugin had been supplied.
\<close>

theorem select_accelerator_custom:
  assumes "distributed_backend s = BAccelerator acc"
  shows "select_accelerator a s =
           Inr (acc, if u_precision_plugin s \<noteq> None \<or> u_training_type_plugin s \<noteq> None
                     then s\<lparr>messages := messages s @ [Warn_PluginsIgnored]\<rparr>
                     else s)"
  using assms by (simp add: select_accelerator_def)

section \<open>Normalisation of the plugins argument\<close>

lemma normalize_plugins_single: "normalize_plugins (PSingle h) = normalize_plugins (PSeq [h])"
  by (cases h) (simp_all add: normalize_plugins_def)

lemma normalize_plugins_none: "normalize_plugins PNone = normalize_plugins (PSeq [])"
  by (simp add: normalize_plugins_def)

lemma init_fields_plugins:
  "init_fields a (args\<lparr>arg_plugins := p\<rparr>) w =
     (case init_fields a args w of
        Inl e \<Rightarrow> Inl e
      | Inr s \<Rightarrow> Inr (s\<lparr>plugins := normalize_plugins p\<rparr>))"
  by (auto simp: init_fields_def split: sum.splits device_arg.splits)

text \<open>
  Claim C10. The constructor gives the same result, error or connector, for a single
  plugin (a string or any other object) as for the one-element list holding it, and for
  \<^verbatim>\<open>None\<close> as for the empty list.
\<close>

theorem init_plugins_normalized:
  "init a (args\<lparr>arg_plugins := PSingle h\<rparr>) w = init a (args\<lparr>arg_plugins := PSeq [h]\<rparr>) w
   \<and> init a (args\<lparr>arg_plugins := PNone\<rparr>) w = init a (args\<lparr>arg_plugins := PSeq []\<rparr>) w"
proof -
  have "init_fields a (args\<lparr>arg_plugins := PSingle h\<rparr>) w
          = init_fields a (args\<lparr>arg_plugins := PSeq [h]\<rparr>) w"
    by (simp only: init_fields_plugins normalize_plugins_single)
  moreover have "init_fields a (args\<lparr>arg_plugins := PNone\<rparr>) w
          = init_fields a (args\<lparr>arg_plugins := PSeq []\<rparr>) w"
    by (simp only: init_fields_plugins normalize_plugins_none)
  ultimately show ?thesis by (simp add: init_def)
qed


text \<open>The definitions that a read of \<^verbatim>\<open>training_type_plugin\<close> on a concrete input unfolds.\<close>

lemmas plugin_defs =
  training_type_plugin_def select_training_type_plugin_def resolve_training_type_plugin_def
  backfill_def parallel_devices_def new_with_devices_def new_object_def accelerator_plugin_def
  select_cluster_environment_def ddp_plugin_cls_def tpu_id_def
  use_dp_def use_ddp_def use_ddp2_def use_horovod_def use_deepspeed_def
  on_cpu_def on_tpu_def on_ipu_def on_gpu_def num_gpus_def

text \<open>A user plugin with every probed attribute unset, on one CPU process and two nodes.\<close>

theorem resolve_training_type_plugin_frame_witness:
  "resolve_training_type_plugin ex_ambient 0 (ex_connector\<lparr>num_nodes := Some 2, sync_batchnorm := True\<rparr>)
     = Inr (0, ex_connector\<lparr>num_nodes := Some 2, sync_batchnorm := True,
                 store := (\<lambda>r. ex_strategy (CustomPlugin []))
                   (0 := \<lparr>tt_class = CustomPlugin [],
                          tt_parallel_devices = Some (Some [CpuDevice]),
                          tt_num_processes = Some (Some 1),
                          tt_cluster_environment = Some (Some LightningEnvironment),
                          tt_num_nodes = Some (Some 2),
                          tt_sync_batchnorm = Some (Some True), tt_other = []\<rparr>)\<rparr>)
   \<and> parallel_devices ex_ambient (ex_connector\<lparr>num_nodes := Some 2, sync_batchnorm := True\<rparr>)
       = Inr [CpuDevice]"
proof -
  have run: "resolve_training_type_plugin ex_ambient 0 (ex_connector\<lparr>num_nodes := Some 2, sync_batchnorm := True\<rparr>)
     = Inr (0, ex_connector\<lparr>num_nodes := Some 2, sync_batchnorm := True,
                 store := (\<lambda>r. ex_strategy (CustomPlugin []))
                   (0 := \<lparr>tt_class = CustomPlugin [],
                          tt_parallel_devices = Some (Some [CpuDevice]),
                          tt_num_processes = Some (Some 1),
                          tt_cluster_environment = Some (Some LightningEnvironment),
                          tt_num_nodes = Some (Some 2),
                          tt_sync_batchnorm = Some (Some True), tt_other = []\<rparr>)\<rparr>)"
    by (simp add: plugin_defs ex_connector_sel ex_ambient_def ex_strategy_def Let_def)
  from resolve_training_type_plugin_frame [OF run] run show ?thesis
    by (simp add: ex_connector_sel ex_strategy_def)
qed

text \<open>
  The first read on the example connector selects a single-device plugin, allocates it
  at reference 0, back-fills its cluster environment, node count and batch-norm flag,
  and sets the flag; the second read returns reference 0 and the same connector.
\<close>

theorem training_type_plugin_memoized_witness:
  "training_type_plugin ex_ambient ex_connector
   = Inr (Some 0,
      ex_connector\<lparr>u_training_type_plugin := Some 0, u_training_type_plugin_resolved := True,
                   next_ref := 1,
                   store := (\<lambda>r. ex_strategy (CustomPlugin []))
                     (0 := \<lparr>tt_class = SingleDevicePlugin, tt_parallel_devices = None,
                            tt_num_processes = Some None,
                            tt_cluster_environment = Some (Some LightningEnvironment),
                            tt_num_nodes = Some (Some 1),
                            tt_sync_batchnorm = Some (Some False), tt_other = []\<rparr>)\<rparr>)
   \<and> training_type_plugin ex_ambient
     (ex_connector\<lparr>u_training_type_plugin := Some 0, u_training_type_plugin_resolved := True,
                   next_ref := 1,
                   store := (\<lambda>r. ex_strategy (CustomPlugin []))
                     (0 := \<lparr>tt_class = SingleDevicePlugin, tt_parallel_devices = None,
                            tt_num_processes = Some None,
                            tt_cluster_environment = Some (Some LightningEnvironment),
                            tt_num_nodes = Some (Some 1),
                            tt_sync_batchnorm = Some (Some False), tt_other = []\<rparr>)\<rparr>)
   = Inr (Some 0,
      ex_connector\<lparr>u_training_type_plugin := Some 0, u_training_type_plugin_resolved := True,
                   next_ref := 1,
                   store := (\<lambda>r. ex_strategy (CustomPlugin []))
                     (0 := \<lparr>tt_class = SingleDevicePlugin, tt_parallel_devices = None,
                            tt_num_processes = Some None,
                            tt_cluster_environment = Some (Some LightningEnvironment),
                            tt_num_nodes = Some (Some 1),
                            tt_sync_batchnorm = Some (Some False), tt_other = []\<rparr>)\<rparr>)"
proof -
  have unresolved: "\<not> u_training_type_plugin_resolved ex_connector"
    by (simp add: ex_connector_sel)
  have selection: "select_training_type_plugin ex_ambient ex_connector
     = Inr (0, ex_connector\<lparr>next_ref := 1,
                  store := (\<lambda>r. ex_strategy (CustomPlugin []))
                     (0 := \<lparr>tt_class = SingleDevicePlugin, tt_parallel_devices = None,
                            tt_num_processes = Some None,
                            tt_cluster_environment = Some None,
                            tt_num_nodes = Some None,
                            tt_sync_batchnorm = Some None, tt_other = []\<rparr>)\<rparr>)"
    by (simp add: plugin_defs ex_connector_sel ex_ambient_def ex_strategy_def ex_construct_def
        Let_def)
  have first: "training_type_plugin ex_ambient ex_connector
   = Inr (Some 0,
      ex_connector\<lparr>u_training_type_plugin := Some 0, u_training_type_plugin_resolved := True,
                   next_ref := 1,
                   store := (\<lambda>r. ex_strategy (CustomPlugin []))
                     (0 := \<lparr>tt_class = SingleDevicePlugin, tt_parallel_devices = None,
                            tt_num_processes = Some None,
                            tt_cluster_environment = Some (Some LightningEnvironment),
                            tt_num_nodes = Some (Some 1),
                            tt_sync_batchnorm = Some (Some False), tt_other = []\<rparr>)\<rparr>)"
  proof -
    from training_type_plugin_memoized [of ex_connector ex_ambient] unresolved
    have "training_type_plugin ex_ambient ex_connector =
        (case (case u_training_type_plugin ex_connector of
                 None \<Rightarrow> select_training_type_plugin ex_ambient ex_connector
               | Some r \<Rightarrow> Inr (r, ex_connector)) of
           Inl e \<Rightarrow> Inl e
         | Inr (r0, s0) \<Rightarrow>
             (case backfill ex_ambient s0 (store s0 r0) of
                Inl e \<Rightarrow> Inl e
              | Inr p \<Rightarrow>
                  Inr (Some r0,
                       s0\<lparr>u_training_type_plugin := Some r0,
                          u_training_type_plugin_resolved := True,
                          store := (store s0)(r0 := p)\<rparr>)))"
      by blast
    also have "u_training_type_plugin ex_connector = None"
      by (simp add: ex_connector_sel)
    finally show ?thesis
      unfolding selection
      by (simp add: backfill_def select_cluster_environment_def ex_connector_sel
          ex_ambient_def ex_strategy_def Let_def)
  qed
  from training_type_plugin_memoized [of ex_connector ex_ambient] first show ?thesis
    by blast
qed

text \<open>A custom accelerator together with a precision plugin: returned as it is, with the warning.\<close>

theorem select_accelerator_custom_witness:
  "select_accelerator ex_ambient
     (ex_connector\<lparr>distributed_backend :=
                     BAccelerator \<lparr>acc_id = 7, acc_class = CustomAccelerator ''MyAccelerator'',
                                   acc_training_type_plugin = None,
                                   acc_precision_plugin = None\<rparr>,
                   u_precision_plugin := Some DoublePrecisionPlugin\<rparr>)
     = Inr (\<lparr>acc_id = 7, acc_class = CustomAccelerator ''MyAccelerator'',
             acc_training_type_plugin = None, acc_precision_plugin = None\<rparr>,
            ex_connector\<lparr>distributed_backend :=
                     BAccelerator \<lparr>acc_id = 7, acc_class = CustomAccelerator ''MyAccelerator'',
                                   acc_training_type_plugin = None,
                                   acc_precision_plugin = None\<rparr>,
                   u_precision_plugin := Some DoublePrecisionPlugin,
                   messages := [Warn_PluginsIgnored]\<rparr>)"
  using select_accelerator_custom
          [of "ex_connector\<lparr>distributed_backend :=
                     BAccelerator \<lparr>acc_id = 7, acc_class = CustomAccelerator ''MyAccelerator'',
                                   acc_training_type_plugin = None,
                                   acc_precision_plugin = None\<rparr>,
                   u_precision_plugin := Some DoublePrecisionPlugin\<rparr>"
              "\<lparr>acc_id = 7, acc_class = CustomAccelerator ''MyAccelerator'',
                                   acc_training_type_plugin = None,
                                   acc_precision_plugin = None\<rparr>" ex_ambient]
  by (simp add: ex_connector_sel)

text \<open>One precision plugin, bare and in a list; and no plugins at all.\<close>

theorem init_plugins_normalized_witness:
  "init ex_ambient (ex_args\<lparr>arg_plugins := PSingle (HPrecision DoublePrecisionPlugin)\<rparr>) ex_process
     = init ex_ambient (ex_args\<lparr>arg_plugins := PSeq [HPrecision DoublePrecisionPlugin]\<rparr>) ex_process
   \<and> init ex_ambient (ex_args\<lparr>arg_plugins := PNone\<rparr>) ex_process
     = init ex_ambient (ex_args\<lparr>arg_plugins := PSeq []\<rparr>) ex_process"
  by (rule init_plugins_normalized)

section \<open>Native 16-bit precision\<close>

lemma spp_native_on_cpu:
  assumes "amp_type s = AmpEnum NATIVE" and "on_cpu s"
  shows "spp_native a s = Inl (MisconfigurationException NativeAmpOnCpu)"
  using assms by (simp add: spp_native_def)

lemma spp_native_available:
  assumes amp: "amp_type s = AmpEnum NATIVE" and dev: "\<not> on_cpu s"
    and avail: "NATIVE_AMP_AVAILABLE a"
  shows "spp_native a s =
           (case training_type_plugin a (s\<lparr>messages := messages s @ [Info_Native16]\<rparr>) of
              Inl e \<Rightarrow> Inl e
            | Inr (ref, s1) \<Rightarrow>
                Inr (if plugin_is_instance a s1 ref [DDPShardedPlugin, DDPSpawnShardedPlugin]
                     then ShardedNativeMixedPrecisionPlugin
                     else if plugin_is_instance a s1 ref [DDPFullyShardedPlugin]
                     then FullyShardedNativeMixedPrecisionPlugin
                     else NativeMixedPrecisionPlugin, s1))"
proof (cases "training_type_plugin a (s\<lparr>messages := messages s @ [Info_Native16]\<rparr>)")
  case (Inl e)
  then show ?thesis
    using amp dev avail by (simp add: spp_native_def is_sharded_training_type_def)
next
  case (Inr res)
  obtain ref s1 where res: "res = (ref, s1)" by (cases res)
  have again: "training_type_plugin a s1 = Inr (ref, s1)"
    using Inr res by (simp add: training_type_plugin_again)
  show ?thesis
    using amp dev avail Inr res again
    by (simp add: spp_native_def is_sharded_training_type_def
        is_fully_sharded_training_type_def)
qed

text \<open>
  Claim C4, as amended. Let the requested precision be 16 and the AMP backend resolve
  to native, and let none of the checks that come first apply: no IPUs were requested,
  the distributed type is not DEEPSPEED and the given plugin is no DeepSpeed plugin, and
  no TPU cores were requested. On the CPU device type the selection raises the
  native-AMP-on-CPU \<^verbatim>\<open>MisconfigurationException\<close>. On any other device type, GPU in
  particular, with native AMP available, the selection reads \<^verbatim>\<open>training_type_plugin\<close>
  and raises what that read raises; otherwise it returns the sharded native plugin if
  the resolved plugin is an instance of the sharded or sharded-spawn class, the
  fully-sharded native plugin if it is an instance of the fully-sharded class, and the
  plain native plugin in every other case.
\<close>

theorem select_precision_plugin_native_16:
  assumes amp: "AMPType_from_str a (amp_type s) = Inr (Some NATIVE)"
    and prec: "precision s = 16"
    and no_ipu: "\<not> on_ipu s"
    and no_tpu: "\<not> on_tpu s"
    and no_deepspeed: "u_distrib_type s \<noteq> Some DEEPSPEED"
      "\<not> plugin_is_instance a s (u_training_type_plugin s) [DeepSpeedPlugin]"
  shows "(u_device_type s = CPU \<longrightarrow>
            select_precision_plugin a s = Inl (MisconfigurationException NativeAmpOnCpu))
         \<and> (u_device_type s \<noteq> CPU \<and> NATIVE_AMP_AVAILABLE a \<longrightarrow>
              select_precision_plugin a s =
                (case training_type_plugin a
                        (s\<lparr>amp_type := AmpEnum NATIVE,
                           messages := messages s @ [Info_Native16]\<rparr>) of
                   Inl e \<Rightarrow> Inl e
                 | Inr (ref, s1) \<Rightarrow>
                     Inr (if plugin_is_instance a s1 ref [DDPShardedPlugin, DDPSpawnShardedPlugin]
                          then ShardedNativeMixedPrecisionPlugin
                          else if plugin_is_instance a s1 ref [DDPFullyShardedPlugin]
                          then FullyShardedNativeMixedPrecisionPlugin
                          else NativeMixedPrecisionPlugin, s1)))"
proof -
  let ?s0 = "s\<lparr>amp_type := AmpEnum NATIVE\<rparr>"
  have inst: "plugin_is_instance a ?s0 (u_training_type_plugin ?s0) [DeepSpeedPlugin]
              = plugin_is_instance a s (u_training_type_plugin s) [DeepSpeedPlugin]"
    by (simp add: plugin_is_instance_def split: option.splits)
  have sel: "select_precision_plugin a s = spp_native a ?s0"
    using amp prec no_ipu no_tpu no_deepspeed inst
    by (simp add: select_precision_plugin_def on_ipu_def on_tpu_def Let_def)
  have cpu: "select_precision_plugin a s = Inl (MisconfigurationException NativeAmpOnCpu)"
    if "u_device_type s = CPU"
    using that by (simp add: sel spp_native_on_cpu on_cpu_def)
  have gpu: "select_precision_plugin a s =
                (case training_type_plugin a
                        (s\<lparr>amp_type := AmpEnum NATIVE,
                           messages := messages s @ [Info_Native16]\<rparr>) of
                   Inl e \<Rightarrow> Inl e
                 | Inr (ref, s1) \<Rightarrow>
                     Inr (if plugin_is_instance a s1 ref [DDPShardedPlugin, DDPSpawnShardedPlugin]
                          then ShardedNativeMixedPrecisionPlugin
                          else if plugin_is_instance a s1 ref [DDPFullyShardedPlugin]
                          then FullyShardedNativeMixedPrecisionPlugin
                          else NativeMixedPrecisionPlugin, s1))"
    if "u_device_type s \<noteq> CPU" and "NATIVE_AMP_AVAILABLE a"
  proof -
    have "spp_native a ?s0 =
           (case training_type_plugin a (?s0\<lparr>messages := messages ?s0 @ [Info_Native16]\<rparr>) of
              Inl e \<Rightarrow> Inl e
            | Inr (ref, s1) \<Rightarrow>
                Inr (if plugin_is_instance a s1 ref [DDPShardedPlugin, DDPSpawnShardedPlugin]
                     then ShardedNativeMixedPrecisionPlugin
                     else if plugin_is_instance a s1 ref [DDPFullyShardedPlugin]
                     then FullyShardedNativeMixedPrecisionPlugin
                     else NativeMixedPrecisionPlugin, s1))"
      using that by (intro spp_native_available) (simp_all add: on_cpu_def)
    then show ?thesis by (simp add: sel)
  qed
  from cpu gpu show ?thesis by blast
qed


text \<open>
  Claim C4 as stated fails: with precision 16, the native backend and the CPU device
  type, a connector with IPUs requested gets the IPU precision plugin and no error.
\<close>

theorem select_precision_plugin_ipu_on_cpu:
  "u_device_type (ex_connector\<lparr>precision := 16, ipus := Some 2\<rparr>) = CPU
   \<and> AMPType_from_str ex_ambient (amp_type (ex_connector\<lparr>precision := 16, ipus := Some 2\<rparr>))
       = Inr (Some NATIVE)
   \<and> select_precision_plugin ex_ambient (ex_connector\<lparr>precision := 16, ipus := Some 2\<rparr>)
       = Inr (IPUPrecisionPlugin 16,
              ex_connector\<lparr>precision := 16, ipus := Some 2, amp_type := AmpEnum NATIVE\<rparr>)"
  by (simp add: select_precision_plugin_def on_ipu_def ex_connector_sel ex_ambient_def Let_def)

text \<open>
  The example connector at precision 16 fails on CPU; on two GPUs with the sharded
  distributed type the selection reads the plugin, a sharded one, and returns the
  sharded native plugin.
\<close>

theorem select_precision_plugin_native_16_witness:
  "select_precision_plugin ex_ambient (ex_connector\<lparr>precision := 16\<rparr>)
     = Inl (MisconfigurationException NativeAmpOnCpu)
   \<and> select_precision_plugin (ex_ambient\<lparr>cuda_is_available := True\<rparr>)
       (ex_connector\<lparr>precision := 16, u_device_type := GPU,
                     parallel_device_ids := Some [0, 1], u_distrib_type := Some DDP_SHARDED,
                     u_cluster_environment := Some LightningEnvironment\<rparr>)
     = Inr (ShardedNativeMixedPrecisionPlugin,
            ex_connector\<lparr>precision := 16, u_device_type := GPU,
                     parallel_device_ids := Some [0, 1], u_distrib_type := Some DDP_SHARDED,
                     u_cluster_environment := Some LightningEnvironment,
                     amp_type := AmpEnum NATIVE, messages := [Info_Native16],
                     u_training_type_plugin := Some 0, u_training_type_plugin_resolved := True,
                     next_ref := 1,
                     store := (\<lambda>r. ex_strategy (CustomPlugin []))
                       (0 := \<lparr>tt_class = DDPShardedPlugin,
                              tt_parallel_devices = Some (Some [CudaDevice 0, CudaDevice 1]),
                              tt_num_processes = Some None,
                              tt_cluster_environment = Some (Some LightningEnvironment),
                              tt_num_nodes = Some (Some 1),
                              tt_sync_batchnorm = Some (Some False), tt_other = []\<rparr>)\<rparr>)"
proof -
  let ?a = "ex_ambient\<lparr>cuda_is_available := True\<rparr>"
  let ?c = "ex_connector\<lparr>precision := 16\<rparr>"
  let ?g = "ex_connector\<lparr>precision := 16, u_device_type := GPU,
                     parallel_device_ids := Some [0, 1], u_distrib_type := Some DDP_SHARDED,
                     u_cluster_environment := Some LightningEnvironment\<rparr>"
  have c: "AMPType_from_str ex_ambient (amp_type ?c) = Inr (Some NATIVE)" "precision ?c = 16"
    "\<not> on_ipu ?c" "\<not> on_tpu ?c" "u_distrib_type ?c \<noteq> Some DEEPSPEED"
    "\<not> plugin_is_instance ex_ambient ?c (u_training_type_plugin ?c) [DeepSpeedPlugin]"
    "u_device_type ?c = CPU"
    by (simp_all add: ex_connector_sel ex_ambient_def on_ipu_def on_tpu_def plugin_is_instance_def)
  have g: "AMPType_from_str ?a (amp_type ?g) = Inr (Some NATIVE)" "precision ?g = 16"
    "\<not> on_ipu ?g" "\<not> on_tpu ?g" "u_distrib_type ?g \<noteq> Some DEEPSPEED"
    "\<not> plugin_is_instance ?a ?g (u_training_type_plugin ?g) [DeepSpeedPlugin]"
    "u_device_type ?g \<noteq> CPU \<and> NATIVE_AMP_AVAILABLE ?a"
    by (simp_all add: ex_connector_sel ex_ambient_def on_ipu_def on_tpu_def plugin_is_instance_def)
  have read: "training_type_plugin ?a (?g\<lparr>amp_type := AmpEnum NATIVE,
                           messages := messages ?g @ [Info_Native16]\<rparr>)
     = Inr (Some 0,
            ex_connector\<lparr>precision := 16, u_device_type := GPU,
                     parallel_device_ids := Some [0, 1], u_distrib_type := Some DDP_SHARDED,
                     u_cluster_environment := Some LightningEnvironment,
                     amp_type := AmpEnum NATIVE, messages := [Info_Native16],
                     u_training_type_plugin := Some 0, u_training_type_plugin_resolved := True,
                     next_ref := 1,
                     store := (\<lambda>r. ex_strategy (CustomPlugin []))
                       (0 := \<lparr>tt_class = DDPShardedPlugin,
                              tt_parallel_devices = Some (Some [CudaDevice 0, CudaDevice 1]),
                              tt_num_processes = Some None,
                              tt_cluster_environment = Some (Some LightningEnvironment),
                              tt_num_nodes = Some (Some 1),
                              tt_sync_batchnorm = Some (Some False), tt_other = []\<rparr>)\<rparr>)"
    by (simp add: plugin_defs ex_connector_sel ex_ambient_def ex_strategy_def ex_construct_def Let_def)
  have cpu: "select_precision_plugin ex_ambient ?c = Inl (MisconfigurationException NativeAmpOnCpu)"
    using select_precision_plugin_native_16 [OF c(1-6)] c(7) by blast
  have gpu: "select_precision_plugin ?a ?g =
                (case training_type_plugin ?a
                        (?g\<lparr>amp_type := AmpEnum NATIVE,
                           messages := messages ?g @ [Info_Native16]\<rparr>) of
                   Inl e \<Rightarrow> Inl e
                 | Inr (ref, s1) \<Rightarrow>
                     Inr (if plugin_is_instance ?a s1 ref [DDPShardedPlugin, DDPSpawnShardedPlugin]
                          then ShardedNativeMixedPrecisionPlugin
                          else if plugin_is_instance ?a s1 ref [DDPFullyShardedPlugin]
                          then FullyShardedNativeMixedPrecisionPlugin
                          else NativeMixedPrecisionPlugin, s1))"
    using select_precision_plugin_native_16 [OF g(1-6)] g(7) by blast
  show ?thesis
    unfolding gpu read using cpu
    by (simp add: plugin_is_instance_def is_instance_def)
qed

section \<open>Conflicts among the plugin hints\<close>














section \<open>The backend \<^verbatim>\<open>ddp_cpu\<close> in a later call\<close>



end
